theory Spec2Isabelle
  imports Main "HOL-Library.Word"
begin

section \<open>Cluster admin surface: validateNewConfig\<close>

text \<open>
  The raft role of a cluster member. \<^verbatim>\<open>ClusterMember.ToRaftNode\<close> maps the strings
  "voter", "stand-by" and "spare" to these three values and rejects every other string.
\<close>

datatype RaftRole = RaftVoter | RaftStandBy | RaftSpare

text \<open>
  \<^verbatim>\<open>db.RaftNode\<close> as \<^verbatim>\<open>cmdClusterEdit.run\<close> and \<^verbatim>\<open>ToRaftNode\<close> use it: the embedded
  \<^verbatim>\<open>client.NodeInfo\<close> carries ID (uint64), Address and Role; Name is the member name.
\<close>

record RaftNode =
  ID :: "64 word"
  Address :: string
  Role :: RaftRole
  Name :: string

text \<open>
  The errors \<^verbatim>\<open>validateNewConfig\<close> returns, one constructor per message:
  \<^item> \<open>ErrRemoving\<close>: "Removing cluster members is not supported"
  \<^item> \<open>ErrAdding\<close>: "Adding cluster members is not supported"
  \<^item> \<open>ErrChangingID\<close>: "Changing cluster member ID is not supported"
  \<^item> \<open>ErrChangingName\<close>: "Changing cluster member name is not supported"
  \<^item> \<open>ErrSpareToVoter\<close>: A "spare" cluster member cannot become a "voter"
  \<^item> \<open>ErrTwoVoters\<close>: Number of "voter" must be 2 or more
  \<^item> \<open>ErrNoVoter\<close>: At least one member must be a "voter"
\<close>

datatype config_error =
    ErrRemoving | ErrAdding | ErrChangingID | ErrChangingName
  | ErrSpareToVoter | ErrTwoVoters | ErrNoVoter

text \<open>
  What a call of a Go function of result type \<^verbatim>\<open>error\<close> can do: return nil, return an
  error, or panic at run time (here: an index out of range).
\<close>

datatype go_error = NilError | Error config_error | IndexPanic

text \<open>
  The body of \<^verbatim>\<open>for i, newNode := range newNodes\<close>. The index \<open>i\<close> and the counter
  \<open>numNewVoters\<close> are threaded through; \<^verbatim>\<open>oldNodes[i]\<close> panics when \<open>i\<close> is out of
  range. An early return is \<open>Inl\<close>, falling out of the loop is \<open>Inr\<close> of the counter.
\<close>

fun validateLoop :: "RaftNode list \<Rightarrow> nat \<Rightarrow> RaftNode list \<Rightarrow> nat \<Rightarrow> go_error + nat" where
  "validateLoop oldNodes i [] numNewVoters = Inr numNewVoters"
| "validateLoop oldNodes i (newNode # rest) numNewVoters =
     (if length oldNodes \<le> i then Inl IndexPanic
      else let oldNode = oldNodes ! i in
        if ID oldNode \<noteq> ID newNode then Inl (Error ErrChangingID)
        else if Name oldNode \<noteq> [] \<and> Name newNode \<noteq> [] \<and> Name oldNode \<noteq> Name newNode
          then Inl (Error ErrChangingName)
        else if Role oldNode = RaftSpare \<and> Role newNode = RaftVoter
          then Inl (Error ErrSpareToVoter)
        else validateLoop oldNodes (Suc i) rest
               (if Role newNode = RaftVoter then numNewVoters + 1 else numNewVoters))"

definition validateNewConfig :: "RaftNode list \<Rightarrow> RaftNode list \<Rightarrow> go_error" where
  "validateNewConfig oldNodes newNodes =
     (if length oldNodes > length newNodes then Error ErrRemoving
      else if length oldNodes < length newNodes then Error ErrAdding
      else case validateLoop oldNodes 0 newNodes 0 of
             Inl e \<Rightarrow> e
           | Inr numNewVoters \<Rightarrow>
               if numNewVoters < 2 \<and> length newNodes > 2 then Error ErrTwoVoters
               else if numNewVoters < 1 then Error ErrNoVoter
               else NilError)"

text \<open>The number of voters of a member list.\<close>

definition voters :: "RaftNode list \<Rightarrow> nat" where
  "voters ns = length (filter (\<lambda>n. Role n = RaftVoter) ns)"

text \<open>
  The per-member conditions as the specification words them: the id differs from the id
  at the same position, the member's non-empty name is changed, or a spare is made a voter.
\<close>

definition member_rejected_spec :: "RaftNode \<Rightarrow> RaftNode \<Rightarrow> bool" where
  "member_rejected_spec oldNode newNode \<longleftrightarrow>
     ID oldNode \<noteq> ID newNode
     \<or> (Name oldNode \<noteq> [] \<and> Name oldNode \<noteq> Name newNode)
     \<or> (Role oldNode = RaftSpare \<and> Role newNode = RaftVoter)"

text \<open>
  The per-member conditions as the code checks them: a name change counts only when
  both the old and the new name are non-empty.
\<close>

definition member_rejected :: "RaftNode \<Rightarrow> RaftNode \<Rightarrow> bool" where
  "member_rejected oldNode newNode \<longleftrightarrow>
     ID oldNode \<noteq> ID newNode
     \<or> (Name oldNode \<noteq> [] \<and> Name newNode \<noteq> [] \<and> Name oldNode \<noteq> Name newNode)
     \<or> (Role oldNode = RaftSpare \<and> Role newNode = RaftVoter)"

text \<open>The conditions on the whole new configuration.\<close>

definition quorum_rejected :: "RaftNode list \<Rightarrow> bool" where
  "quorum_rejected newNodes \<longleftrightarrow>
     voters newNodes = 0 \<or> (length newNodes > 2 \<and> voters newNodes < 2)"

definition config_rejected_spec :: "RaftNode list \<Rightarrow> RaftNode list \<Rightarrow> bool" where
  "config_rejected_spec oldNodes newNodes \<longleftrightarrow>
     length newNodes < length oldNodes \<or> length newNodes > length oldNodes
     \<or> (\<exists>i < length newNodes. member_rejected_spec (oldNodes ! i) (newNodes ! i))
     \<or> quorum_rejected newNodes"

definition config_rejected :: "RaftNode list \<Rightarrow> RaftNode list \<Rightarrow> bool" where
  "config_rejected oldNodes newNodes \<longleftrightarrow>
     length newNodes < length oldNodes \<or> length newNodes > length oldNodes
     \<or> (\<exists>i < length newNodes. member_rejected (oldNodes ! i) (newNodes ! i))
     \<or> quorum_rejected newNodes"

definition is_error :: "go_error \<Rightarrow> bool" where
  "is_error e \<longleftrightarrow> (\<exists>c. e = Error c)"

section \<open>Migration source and sink\<close>

text \<open>
  The three channel names \<^verbatim>\<open>api.SecretNameControl\<close>, \<^verbatim>\<open>api.SecretNameFilesystem\<close>
  and \<^verbatim>\<open>api.SecretNameState\<close>: three distinct string constants, used as map keys.
\<close>

datatype secret_name = SecretNameControl | SecretNameFilesystem | SecretNameState

datatype instance_type = Container | VM

text \<open>What the constructors read of \<^verbatim>\<open>instance.Instance\<close>: \<^verbatim>\<open>Type()\<close> and \<^verbatim>\<open>IsRunning()\<close>.\<close>

record Instance =
  instType :: instance_type
  instIsRunning :: bool

text \<open>
  \<^verbatim>\<open>newMigrationConn(secret, dialer, url)\<close>: a connection that has a secret and, when
  this side dials, a dialer and the URL to dial (both nil otherwise).
\<close>

record migrationConn =
  connSecret :: string
  connDialer :: "string option"
  connURL :: "string option"

datatype migration_error =
    ErrNoLiveMigrationSource
  | ErrNoLiveMigrationTarget
  | ErrSourceSecretMissing secret_name
  | ErrSourceDialer secret_name
  | ErrSourceParseURL secret_name
  | ErrSourceCreateSecret secret_name
  | ErrSinkSecretMissing secret_name
  | ErrSinkParseURL secret_name
  | ErrSinkCreateSecret secret_name

text \<open>
  What the constructors ask of the system and of library code outside the repository:
  whether \<^verbatim>\<open>exec.LookPath("criu")\<close> finds the tool, what the \<open>n\<close>-th call of
  \<^verbatim>\<open>RandomHexString(32)\<close> returns, and whether \<^verbatim>\<open>setupWebsocketDialer\<close> and
  \<^verbatim>\<open>url.Parse\<close> succeed (\<open>None\<close> is the error).
\<close>

record migration_env =
  lookPathCriu :: bool
  randomHexString :: "nat \<Rightarrow> string option"
  setupWebsocketDialer :: "string \<Rightarrow> string option"
  urlParse :: "string \<Rightarrow> string option"

text \<open>\<^verbatim>\<open>api.InstancePostTarget\<close>: certificate, operation URL and the websocket secrets.\<close>

record InstancePostTarget =
  targetCertificate :: string
  targetOperation :: string
  targetWebsockets :: "secret_name \<rightharpoonup> string"

record migrationSourceWs =
  srcInstance :: Instance
  srcAllowInconsistent :: bool
  srcStoragePool :: string
  srcClusterMoveSourceName :: string
  srcPushCertificate :: string
  srcPushOperationURL :: string
  srcPushSecrets :: "secret_name \<rightharpoonup> string"
  srcInstanceOnly :: bool
  srcLive :: bool
  srcConns :: "secret_name \<rightharpoonup> migrationConn"

text \<open>Reading a Go \<^verbatim>\<open>map[string]string\<close>: a missing key reads as the empty string.\<close>

definition mapGet :: "('k \<rightharpoonup> string) \<Rightarrow> 'k \<Rightarrow> string" where
  "mapGet m k = (case m k of None \<Rightarrow> [] | Some v \<Rightarrow> v)"

text \<open>\<^verbatim>\<open>strings.TrimPrefix\<close>.\<close>

definition TrimPrefix :: "string \<Rightarrow> string \<Rightarrow> string" where
  "TrimPrefix s p = (if take (length p) s = p then drop (length p) s else s)"

definition websocketURL :: "string \<Rightarrow> string" where
  "websocketURL operationURL = ''wss://'' @ TrimPrefix operationURL ''https://'' @ ''/websocket''"

text \<open>
  The loop \<^verbatim>\<open>for _, connName := range secretNames\<close> of \<^verbatim>\<open>newMigrationSource\<close>.
  \<open>k\<close> counts the calls of \<^verbatim>\<open>RandomHexString\<close> made so far.
\<close>

fun sourceConnsLoop ::
  "migration_env \<Rightarrow> string \<Rightarrow> string \<Rightarrow> (secret_name \<rightharpoonup> string) \<Rightarrow> secret_name list \<Rightarrow> nat
    \<Rightarrow> (secret_name \<rightharpoonup> migrationConn) \<Rightarrow> migration_error + (secret_name \<rightharpoonup> migrationConn)" where
  "sourceConnsLoop env cert opURL secrets [] k conns = Inr conns"
| "sourceConnsLoop env cert opURL secrets (connName # rest) k conns =
     (if opURL \<noteq> [] then
        if mapGet secrets connName = [] then Inl (ErrSourceSecretMissing connName)
        else case setupWebsocketDialer env cert of
          None \<Rightarrow> Inl (ErrSourceDialer connName)
        | Some dialer \<Rightarrow>
            (case urlParse env (websocketURL opURL) of
               None \<Rightarrow> Inl (ErrSourceParseURL connName)
             | Some u \<Rightarrow> sourceConnsLoop env cert opURL secrets rest k
                 (conns(connName \<mapsto>
                    \<lparr>connSecret = mapGet secrets connName, connDialer = Some dialer, connURL = Some u\<rparr>)))
      else case randomHexString env k of
          None \<Rightarrow> Inl (ErrSourceCreateSecret connName)
        | Some secret \<Rightarrow> sourceConnsLoop env cert opURL secrets rest (Suc k)
            (conns(connName \<mapsto> \<lparr>connSecret = secret, connDialer = None, connURL = None\<rparr>)))"

definition newMigrationSource ::
  "migration_env \<Rightarrow> Instance \<Rightarrow> bool \<Rightarrow> bool \<Rightarrow> bool \<Rightarrow> string \<Rightarrow> string
    \<Rightarrow> InstancePostTarget option \<Rightarrow> migration_error + migrationSourceWs" where
  "newMigrationSource env inst stateful instanceOnly allowInconsistent clusterMoveSourceName
      storagePool pushTarget =
     (let cert = (case pushTarget of None \<Rightarrow> [] | Some t \<Rightarrow> targetCertificate t);
          opURL = (case pushTarget of None \<Rightarrow> [] | Some t \<Rightarrow> targetOperation t);
          secrets = (case pushTarget of None \<Rightarrow> Map.empty | Some t \<Rightarrow> targetWebsockets t);
          secretNames = [SecretNameControl, SecretNameFilesystem]
      in if stateful \<and> instIsRunning inst \<and> instType inst = Container \<and> \<not> lookPathCriu env
         then Inl ErrNoLiveMigrationSource
         else
           let live = (stateful \<and> instIsRunning inst);
               secretNames = (if live then secretNames @ [SecretNameState] else secretNames)
           in case sourceConnsLoop env cert opURL secrets secretNames 0 Map.empty of
                Inl e \<Rightarrow> Inl e
              | Inr conns \<Rightarrow> Inr
                  \<lparr>srcInstance = inst, srcAllowInconsistent = allowInconsistent,
                   srcStoragePool = storagePool, srcClusterMoveSourceName = clusterMoveSourceName,
                   srcPushCertificate = cert, srcPushOperationURL = opURL, srcPushSecrets = secrets,
                   srcInstanceOnly = instanceOnly, srcLive = live, srcConns = conns\<rparr>)"

record migrationSinkArgs =
  argInstance :: Instance
  argInstanceOnly :: bool
  argLive :: bool
  argStoragePool :: string
  argURL :: string
  argClusterMoveSourceName :: string
  argPush :: bool
  argRefresh :: bool
  argRefreshExcludeOlder :: bool
  argSecrets :: "secret_name \<rightharpoonup> string"
  argDialer :: "string option"

record migrationSink =
  sinkInstance :: Instance
  sinkInstanceOnly :: bool
  sinkLive :: bool
  sinkStoragePool :: string
  sinkURL :: string
  sinkClusterMoveSourceName :: string
  sinkPush :: bool
  sinkRefresh :: bool
  sinkRefreshExcludeOlder :: bool
  sinkConns :: "secret_name \<rightharpoonup> migrationConn"

text \<open>The loop \<^verbatim>\<open>for _, connName := range secretNames\<close> of \<^verbatim>\<open>newMigrationSink\<close>.\<close>

fun sinkConnsLoop ::
  "migration_env \<Rightarrow> migrationSinkArgs \<Rightarrow> secret_name list \<Rightarrow> nat
    \<Rightarrow> (secret_name \<rightharpoonup> migrationConn) \<Rightarrow> migration_error + (secret_name \<rightharpoonup> migrationConn)" where
  "sinkConnsLoop env args [] k conns = Inr conns"
| "sinkConnsLoop env args (connName # rest) k conns =
     (if \<not> argPush args then
        if mapGet (argSecrets args) connName = [] then Inl (ErrSinkSecretMissing connName)
        else case urlParse env (websocketURL (argURL args)) of
            None \<Rightarrow> Inl (ErrSinkParseURL connName)
          | Some u \<Rightarrow> sinkConnsLoop env args rest k
              (conns(connName \<mapsto>
                 \<lparr>connSecret = mapGet (argSecrets args) connName, connDialer = argDialer args,
                  connURL = Some u\<rparr>))
      else case randomHexString env k of
          None \<Rightarrow> Inl (ErrSinkCreateSecret connName)
        | Some secret \<Rightarrow> sinkConnsLoop env args rest (Suc k)
            (conns(connName \<mapsto> \<lparr>connSecret = secret, connDialer = None, connURL = None\<rparr>)))"

definition newMigrationSink :: "migration_env \<Rightarrow> migrationSinkArgs \<Rightarrow> migration_error + migrationSink" where
  "newMigrationSink env args =
     (let secretNames = [SecretNameControl, SecretNameFilesystem]
      in if argLive args \<and> instType (argInstance args) = Container \<and> \<not> lookPathCriu env
         then Inl ErrNoLiveMigrationTarget
         else
           let secretNames = (if argLive args then secretNames @ [SecretNameState] else secretNames)
           in case sinkConnsLoop env args secretNames 0 Map.empty of
                Inl e \<Rightarrow> Inl e
              | Inr conns \<Rightarrow> Inr
                  \<lparr>sinkInstance = argInstance args, sinkInstanceOnly = argInstanceOnly args,
                   sinkLive = argLive args, sinkStoragePool = argStoragePool args,
                   sinkURL = argURL args,
                   sinkClusterMoveSourceName = argClusterMoveSourceName args,
                   sinkPush = argPush args, sinkRefresh = argRefresh args,
                   sinkRefreshExcludeOlder = argRefreshExcludeOlder args, sinkConns = conns\<rparr>)"

text \<open>The channel set the specification gives a session.\<close>

definition channels_spec :: "bool \<Rightarrow> secret_name set" where
  "channels_spec live =
     (if live then {SecretNameControl, SecretNameFilesystem, SecretNameState}
      else {SecretNameControl, SecretNameFilesystem})"

subsection \<open>The do step\<close>

text \<open>
  What \<^verbatim>\<open>do\<close> does to the outside, in order: it waits for the control websocket under a
  context with a timeout (in seconds), attaches the operation to the instance, runs the
  transfer, reports an error on the control channel, and disconnects.
\<close>

datatype migration_event =
    WaitControl nat
  | SetOperation
  | MigrateSend
  | MigrateReceive
  | SendControl
  | Disconnect

text \<open>
  The errors \<^verbatim>\<open>do\<close> returns, each wrapping the error it was caused by:
  \<^item> \<open>FailedWaitingControlSource\<close>: "Failed waiting for migration control connection on source"
  \<^item> \<open>FailedMigrationSource\<close>: "Failed migration on source"
  \<^item> \<open>FailedWaitingControlTarget\<close>: "Failed waiting for migration control connection on target"
  \<^item> \<open>FailedMigrationTarget\<close>: "Failed migration on target"
\<close>

datatype do_error =
    FailedWaitingControlSource string
  | FailedMigrationSource string
  | FailedWaitingControlTarget string
  | FailedMigrationTarget string

text \<open>
  The calls \<^verbatim>\<open>do\<close> makes into code outside \<^verbatim>\<open>src/\<close>:
  \<^verbatim>\<open>conns[control].WebSocket(ctx)\<close>, given the map entry and the timeout of \<open>ctx\<close> in
  seconds, and the instance's \<^verbatim>\<open>MigrateSend\<close> / \<^verbatim>\<open>MigrateReceive\<close>. Each returns its
  error message, or \<open>None\<close> for nil.
\<close>

record do_env =
  webSocket :: "migrationConn option \<Rightarrow> nat \<Rightarrow> string option"
  migrateSend :: "string option"
  migrateReceive :: "string option"

definition migrationSourceWs_do :: "do_env \<Rightarrow> migrationSourceWs \<Rightarrow> do_error option \<times> migration_event list" where
  "migrationSourceWs_do env s =
     (case webSocket env (srcConns s SecretNameControl) 30 of
        Some err \<Rightarrow> (Some (FailedWaitingControlSource err), [WaitControl 30])
      | None \<Rightarrow>
          (case migrateSend env of
             Some err \<Rightarrow> (Some (FailedMigrationSource err),
                [WaitControl 30, SetOperation, MigrateSend, SendControl, Disconnect])
           | None \<Rightarrow> (None, [WaitControl 30, SetOperation, MigrateSend, Disconnect])))"

definition migrationSink_do :: "do_env \<Rightarrow> migrationSink \<Rightarrow> do_error option \<times> migration_event list" where
  "migrationSink_do env c =
     (case webSocket env (sinkConns c SecretNameControl) 30 of
        Some err \<Rightarrow> (Some (FailedWaitingControlTarget err), [WaitControl 30])
      | None \<Rightarrow>
          (case migrateReceive env of
             Some err \<Rightarrow> (Some (FailedMigrationTarget err),
                [WaitControl 30, MigrateReceive, SendControl] @ (if sinkPush c then [Disconnect] else []))
           | None \<Rightarrow> (None,
                [WaitControl 30, MigrateReceive] @ (if sinkPush c then [Disconnect] else []))))"

section \<open>Image store\<close>

text \<open>
  An image record: the columns of \<^verbatim>\<open>dbCluster.Image\<close> and the fields of
  \<^verbatim>\<open>api.Image\<close> the functions below read. Times are nanoseconds since the Unix
  epoch; \<^verbatim>\<open>LastUseDate\<close> is \<open>None\<close> when its time is the zero time.
\<close>

record Image =
  imgID :: int
  imgProject :: string
  imgFingerprint :: string
  imgFilename :: string
  imgSize :: int
  imgPublic :: bool
  imgAutoUpdate :: bool
  imgArchitecture :: string
  imgCreatedAt :: int
  imgExpiresAt :: int
  imgProperties :: "string \<rightharpoonup> string"
  imgType :: string
  imgCached :: bool
  imgUploadDate :: int
  imgLastUseDate :: "int option"
  imgAliases :: "string list"

text \<open>What a handler does to the outside besides the database, the disk and the pools.\<close>

datatype event =
    PeerDeleteImage string string string
  | AuthorizerDeleteImageAlias string string
  | AuthorizerDeleteImage string string
  | LifecycleImageAliasDeleted string string
  | LifecycleImageDeleted string string
  | LifecycleImageUpdated string string

text \<open>
  The state the image functions work on: the image records of the cluster database, the
  members that hold each image (image id, member), the projects with their configuration,
  the image volumes of the storage pools (pool name, fingerprint), the pools whose driver is
  remote, the other cluster members, the files under the var directory, and the events
  sent so far (latest last).
\<close>

record daemon =
  dbImages :: "Image list"
  dbImagesNodes :: "(int \<times> string) list"
  dbProjects :: "(string \<times> (string \<rightharpoonup> string)) list"
  volumes :: "(string \<times> string) list"
  remotePools :: "string set"
  peers :: "string list"
  localNode :: string
  files :: "string set"
  events :: "event list"

text \<open>\<^verbatim>\<open>strings.HasPrefix\<close>.\<close>

definition HasPrefix :: "string \<Rightarrow> string \<Rightarrow> bool" where
  "HasPrefix s p \<longleftrightarrow> take (length p) s = p"

text \<open>\<^verbatim>\<open>internalUtil.VarPath("images", name)\<close>, relative to the var directory.\<close>

definition imagePath :: "string \<Rightarrow> string" where
  "imagePath name = ''images/'' @ name"

datatype get_error = GetNotFound | GetAmbiguous

text \<open>
  Modelled from the spec: \<^verbatim>\<open>ClusterTx.GetImage\<close> is not under \<^verbatim>\<open>src/\<close>. The
  fingerprint may be a unique prefix: the record of the project whose fingerprint starts
  with it, not-found when there is none, an error when there are several.
\<close>

definition GetImage :: "daemon \<Rightarrow> string \<Rightarrow> string \<Rightarrow> get_error + Image" where
  "GetImage st fingerprint project =
     (case filter (\<lambda>i. imgProject i = project \<and> HasPrefix (imgFingerprint i) fingerprint) (dbImages st) of
        [] \<Rightarrow> Inl GetNotFound
      | [i] \<Rightarrow> Inr i
      | _ \<Rightarrow> Inl GetAmbiguous)"

text \<open>
  Modelled from the spec: \<^verbatim>\<open>ClusterTx.ImageExists\<close> is not under \<^verbatim>\<open>src/\<close>. A record
  with this fingerprint exists in this project.
\<close>

definition ImageExists :: "daemon \<Rightarrow> string \<Rightarrow> string \<Rightarrow> bool" where
  "ImageExists st project fingerprint \<longleftrightarrow>
     list_ex (\<lambda>i. imgProject i = project \<and> imgFingerprint i = fingerprint) (dbImages st)"

text \<open>
  Modelled from the spec: \<^verbatim>\<open>ClusterTx.ImageIsReferencedByOtherProjects\<close> is not under
  \<^verbatim>\<open>src/\<close>. A record with this fingerprint exists in another project.
\<close>

definition ImageIsReferencedByOtherProjects :: "daemon \<Rightarrow> string \<Rightarrow> string \<Rightarrow> bool" where
  "ImageIsReferencedByOtherProjects st project fingerprint \<longleftrightarrow>
     list_ex (\<lambda>i. imgProject i \<noteq> project \<and> imgFingerprint i = fingerprint) (dbImages st)"

text \<open>
  Modelled from the spec: \<^verbatim>\<open>ClusterTx.DeleteImage\<close> is not under \<^verbatim>\<open>src/\<close>. It drops
  the record with this id, and with it the rows that name the members holding it.
\<close>

definition DeleteImage :: "daemon \<Rightarrow> int \<Rightarrow> daemon" where
  "DeleteImage st imageID =
     st\<lparr>dbImages := filter (\<lambda>i. imgID i \<noteq> imageID) (dbImages st),
        dbImagesNodes := filter (\<lambda>(i, n). i \<noteq> imageID) (dbImagesNodes st)\<rparr>"

text \<open>
  Modelled from the spec: \<^verbatim>\<open>ClusterTx.GetPoolsWithImage\<close> and
  \<^verbatim>\<open>GetPoolNamesFromIDs\<close> are not under \<^verbatim>\<open>src/\<close>. The names of the pools that have
  a volume for this fingerprint.
\<close>

definition GetPoolNamesWithImage :: "daemon \<Rightarrow> string \<Rightarrow> string list" where
  "GetPoolNamesWithImage st fingerprint =
     map fst (filter (\<lambda>(p, f). f = fingerprint) (volumes st))"

text \<open>
  Modelled from the spec: the storage pool's \<^verbatim>\<open>DeleteImage\<close> is not under \<^verbatim>\<open>src/\<close>.
  It removes the pool's volume of this fingerprint.
\<close>

definition poolDeleteImage :: "daemon \<Rightarrow> string \<Rightarrow> string \<Rightarrow> daemon" where
  "poolDeleteImage st pool fingerprint =
     st\<lparr>volumes := filter (\<lambda>v. v \<noteq> (pool, fingerprint)) (volumes st)\<rparr>"

definition sendEvents :: "daemon \<Rightarrow> event list \<Rightarrow> daemon" where
  "sendEvents st es = st\<lparr>events := events st @ es\<rparr>"

subsection \<open>imageDelete\<close>

text \<open>
  The calls of \<^verbatim>\<open>imageDelete\<close> that can return an error for reasons outside the model
  (the database, the network, a storage driver); \<open>deleteFails\<close> says which of them do.
\<close>

datatype delete_call =
    CallPathUnescape
  | CallOperationCreate
  | CallImageOperationLock
  | CallImageExists
  | CallIsReferenced
  | CallDeleteImageReferenced
  | CallNewNotifier
  | CallNotifyPeer string
  | CallGetPools
  | CallLoadPool string
  | CallPoolDeleteImage string
  | CallDeleteImage

datatype delete_result =
    DeleteOK
  | DeleteFailed delete_call
  | DeleteGetImage get_error
  | DeleteNotFound

record delete_request =
  delProject :: string
  delFingerprint :: string
  delClusterNotification :: bool

text \<open>\<^verbatim>\<open>imageDeleteFromDisk\<close>: both files go, when they are there.\<close>

definition imageDeleteFromDisk :: "daemon \<Rightarrow> string \<Rightarrow> daemon" where
  "imageDeleteFromDisk st fingerprint =
     st\<lparr>files := files st - {imagePath fingerprint, imagePath fingerprint @ ''.rootfs''}\<rparr>"

text \<open>The loop \<^verbatim>\<open>for _, poolName := range poolNames\<close> of \<^verbatim>\<open>imageDelete\<close>.\<close>

fun deletePoolVolumes ::
  "(delete_call \<Rightarrow> bool) \<Rightarrow> bool \<Rightarrow> string \<Rightarrow> string list \<Rightarrow> daemon \<Rightarrow> delete_result \<times> daemon" where
  "deletePoolVolumes deleteFails notification fingerprint [] st = (DeleteOK, st)"
| "deletePoolVolumes deleteFails notification fingerprint (poolName # rest) st =
     (if deleteFails (CallLoadPool poolName) then (DeleteFailed (CallLoadPool poolName), st)
      else if \<not> notification \<or> poolName \<notin> remotePools st then
        if deleteFails (CallPoolDeleteImage poolName)
        then (DeleteFailed (CallPoolDeleteImage poolName), st)
        else deletePoolVolumes deleteFails notification fingerprint rest
               (poolDeleteImage st poolName fingerprint)
      else deletePoolVolumes deleteFails notification fingerprint rest st)"

text \<open>
  \<^verbatim>\<open>do\<close> from \<^verbatim>\<open>var poolIDs\<close> on: the pool volumes, then the database record (not on
  a cluster notification), then the files.
\<close>

definition deleteVolumesRecordFiles ::
  "(delete_call \<Rightarrow> bool) \<Rightarrow> delete_request \<Rightarrow> Image \<Rightarrow> daemon \<Rightarrow> delete_result \<times> daemon" where
  "deleteVolumesRecordFiles deleteFails r imgInfo st =
     (if deleteFails CallGetPools then (DeleteFailed CallGetPools, st)
      else case deletePoolVolumes deleteFails (delClusterNotification r) (imgFingerprint imgInfo)
                  (GetPoolNamesWithImage st (imgFingerprint imgInfo)) st of
        (DeleteOK, st1) \<Rightarrow>
          if \<not> delClusterNotification r \<and> deleteFails CallDeleteImage
          then (DeleteFailed CallDeleteImage, st1)
          else (DeleteOK,
                imageDeleteFromDisk
                  (if \<not> delClusterNotification r then DeleteImage st1 (imgID imgInfo) else st1)
                  (imgFingerprint imgInfo))
      | (err, st1) \<Rightarrow> (err, st1))"

text \<open>
  The notifier calls every other member; it returns an error when one of the calls
  failed.
\<close>

definition notifyPeers :: "daemon \<Rightarrow> string \<Rightarrow> string \<Rightarrow> daemon" where
  "notifyPeers st project fingerprint =
     sendEvents st (map (\<lambda>p. PeerDeleteImage p project fingerprint) (peers st))"

definition aliasEvents :: "string \<Rightarrow> string list \<Rightarrow> event list" where
  "aliasEvents project names =
     concat (map (\<lambda>n. [AuthorizerDeleteImageAlias project n, LifecycleImageAliasDeleted project n]) names)"

text \<open>The function \<^verbatim>\<open>do\<close> that the delete operation runs.\<close>

definition imageDelete_do ::
  "(delete_call \<Rightarrow> bool) \<Rightarrow> delete_request \<Rightarrow> Image \<Rightarrow> daemon \<Rightarrow> delete_result \<times> daemon" where
  "imageDelete_do deleteFails r imgInfo st =
     (let projectName = delProject r; fp = imgFingerprint imgInfo in
      if deleteFails CallImageOperationLock then (DeleteFailed CallImageOperationLock, st)
      else if deleteFails CallImageExists then (DeleteFailed CallImageExists, st)
      else if \<not> ImageExists st projectName fp then (DeleteNotFound, st)
      else if \<not> delClusterNotification r then
        if deleteFails CallIsReferenced then (DeleteFailed CallIsReferenced, st)
        else if ImageIsReferencedByOtherProjects st projectName fp then
          if deleteFails CallDeleteImageReferenced
          then (DeleteFailed CallDeleteImageReferenced, st)
          else (DeleteOK, DeleteImage st (imgID imgInfo))
        else if deleteFails CallNewNotifier then (DeleteFailed CallNewNotifier, st)
        else
          let st1 = notifyPeers st projectName fp in
          case filter (\<lambda>p. deleteFails (CallNotifyPeer p)) (peers st) of
            p # _ \<Rightarrow> (DeleteFailed (CallNotifyPeer p), st1)
          | [] \<Rightarrow>
              deleteVolumesRecordFiles deleteFails r imgInfo
                (sendEvents st1
                   (aliasEvents projectName (imgAliases imgInfo)
                    @ [AuthorizerDeleteImage projectName fp, LifecycleImageDeleted projectName fp]))
      else deleteVolumesRecordFiles deleteFails r imgInfo st)"

text \<open>
  The handler: it resolves the fingerprint of the request in the project, creates the
  operation and runs \<^verbatim>\<open>do\<close>; the result is the one the operation ends with.
\<close>

definition imageDelete ::
  "(delete_call \<Rightarrow> bool) \<Rightarrow> delete_request \<Rightarrow> daemon \<Rightarrow> delete_result \<times> daemon" where
  "imageDelete deleteFails r st =
     (if deleteFails CallPathUnescape then (DeleteFailed CallPathUnescape, st)
      else case GetImage st (delFingerprint r) (delProject r) of
        Inl e \<Rightarrow> (DeleteGetImage e, st)
      | Inr imgInfo \<Rightarrow>
          if deleteFails CallOperationCreate then (DeleteFailed CallOperationCreate, st)
          else imageDelete_do deleteFails r imgInfo st)"

subsection \<open>pruneExpiredImages\<close>

text \<open>
  \<^verbatim>\<open>strconv.ParseInt(s, 10, 64)\<close>: an optional sign, then one or more decimal
  digits, and a value that fits in 64 bits; \<open>None\<close> is the error.
\<close>

fun parseDigits :: "string \<Rightarrow> int \<Rightarrow> int option" where
  "parseDigits [] acc = Some acc"
| "parseDigits (c # cs) acc =
     (if 48 \<le> (of_char c :: int) \<and> (of_char c :: int) \<le> 57
      then parseDigits cs (10 * acc + (of_char c - 48))
      else None)"

definition ParseInt :: "string \<Rightarrow> int option" where
  "ParseInt s =
     (let neg = (s \<noteq> [] \<and> hd s = CHR ''-'');
          ds = (if s \<noteq> [] \<and> (hd s = CHR ''-'' \<or> hd s = CHR ''+'') then tl s else s)
      in if ds = [] then None
         else case parseDigits ds 0 of
           None \<Rightarrow> None
         | Some n \<Rightarrow>
             let v = (if neg then - n else n)
             in if - (2 ^ 63) \<le> v \<and> v < 2 ^ 63 then Some v else None)"

text \<open>
  \<^verbatim>\<open>time.Duration(expiryDays) * time.Hour * 24\<close>: a \<^verbatim>\<open>Duration\<close> is an int64 count
  of nanoseconds and the multiplication wraps around.
\<close>

definition expiryDuration :: "int \<Rightarrow> int" where
  "expiryDuration expiryDays = sint ((word_of_int expiryDays :: 64 word) * 3600000000000 * 24)"

datatype prune_call =
    PruneGetProjects
  | PruneGetImages
  | PruneDeleteImage int
  | PruneGetPools string
  | PruneLoadPool string
  | PrunePoolDeleteImage string
  | PruneRemove string

datatype prune_result =
    PruneOK
  | PruneFailed prune_call
  | PruneProjectConfig string

text \<open>
  What the pass reads from outside the store: the global
  \<^verbatim>\<open>images.remote_cache_expiry\<close>, the current time, which calls fail, and whether the
  context is done when the loop reaches its \<open>k\<close>-th fingerprint.
\<close>

record prune_env =
  globalImageRemoteCacheExpiryDays :: int
  timeNow :: int
  pruneFails :: "prune_call \<Rightarrow> bool"
  ctxDone :: "nat \<Rightarrow> bool"

text \<open>The loop over the projects that fills \<^verbatim>\<open>projectsImageRemoteCacheExpiryDays\<close>.\<close>

fun projectsExpiryDays ::
  "int \<Rightarrow> (string \<times> (string \<rightharpoonup> string)) list \<Rightarrow> (string \<rightharpoonup> int) \<Rightarrow> string + (string \<rightharpoonup> int)" where
  "projectsExpiryDays global [] m = Inr m"
| "projectsExpiryDays global ((name, config) # rest) m =
     (if mapGet config ''images.remote_cache_expiry'' \<noteq> [] then
        case ParseInt (mapGet config ''images.remote_cache_expiry'') of
          None \<Rightarrow> Inl name
        | Some expiry \<Rightarrow> projectsExpiryDays global rest (m(name \<mapsto> expiry))
      else projectsExpiryDays global rest (m(name \<mapsto> global)))"

text \<open>Reading a Go \<^verbatim>\<open>map[string]int64\<close>: a missing key reads as 0.\<close>

definition expiryDaysOf :: "(string \<rightharpoonup> int) \<Rightarrow> string \<Rightarrow> int" where
  "expiryDaysOf m project = (case m project of None \<Rightarrow> 0 | Some d \<Rightarrow> d)"

definition imageTimestamp :: "Image \<Rightarrow> int" where
  "imageTimestamp dbImage =
     (case imgLastUseDate dbImage of None \<Rightarrow> imgUploadDate dbImage | Some t \<Rightarrow> t)"

text \<open>
  The test the inner loop makes of one record: the expiry of its project is positive and
  \<^verbatim>\<open>imageExpiry.After(time.Now())\<close> is false.
\<close>

definition recordExpired :: "(string \<rightharpoonup> int) \<Rightarrow> int \<Rightarrow> Image \<Rightarrow> bool" where
  "recordExpired m now dbImage \<longleftrightarrow>
     (let expiryDays = expiryDaysOf m (imgProject dbImage) in
      \<not> expiryDays \<le> 0
      \<and> \<not> (imageTimestamp dbImage + expiryDuration expiryDays > now))"

text \<open>
  The inner loop \<^verbatim>\<open>for _, dbImage := range dbImages\<close>: the error it returns with, if
  any, the count \<^verbatim>\<open>dbImagesDeleted\<close> and the store.
\<close>

fun pruneRecords ::
  "prune_env \<Rightarrow> (string \<rightharpoonup> int) \<Rightarrow> string \<Rightarrow> Image list \<Rightarrow> nat \<Rightarrow> daemon
    \<Rightarrow> prune_result \<times> nat \<times> daemon" where
  "pruneRecords env m fingerprint [] dbImagesDeleted st = (PruneOK, dbImagesDeleted, st)"
| "pruneRecords env m fingerprint (dbImage # rest) dbImagesDeleted st =
     (if \<not> recordExpired m (timeNow env) dbImage
      then pruneRecords env m fingerprint rest dbImagesDeleted st
      else if pruneFails env (PruneDeleteImage (imgID dbImage))
      then (PruneFailed (PruneDeleteImage (imgID dbImage)), dbImagesDeleted, st)
      else pruneRecords env m fingerprint rest (dbImagesDeleted + 1)
             (sendEvents (DeleteImage st (imgID dbImage))
                [LifecycleImageDeleted (imgProject dbImage) fingerprint]))"

text \<open>The loop over the pools that have a volume of the fingerprint.\<close>

fun prunePoolVolumes :: "prune_env \<Rightarrow> string \<Rightarrow> string list \<Rightarrow> daemon \<Rightarrow> prune_result \<times> daemon" where
  "prunePoolVolumes env fingerprint [] st = (PruneOK, st)"
| "prunePoolVolumes env fingerprint (poolName # rest) st =
     (if pruneFails env (PruneLoadPool poolName) then (PruneFailed (PruneLoadPool poolName), st)
      else if pruneFails env (PrunePoolDeleteImage poolName)
      then (PruneFailed (PrunePoolDeleteImage poolName), st)
      else prunePoolVolumes env fingerprint rest (poolDeleteImage st poolName fingerprint))"

text \<open>
  What the outer loop does for a fingerprint whose records were all deleted: the pool
  volumes, then the two files. An error of the pool query skips the fingerprint.
\<close>

definition pruneBlob :: "prune_env \<Rightarrow> string \<Rightarrow> daemon \<Rightarrow> prune_result \<times> daemon" where
  "pruneBlob env fingerprint st =
     (if pruneFails env (PruneGetPools fingerprint) then (PruneOK, st)
      else case prunePoolVolumes env fingerprint (GetPoolNamesWithImage st fingerprint) st of
        (PruneOK, st1) \<Rightarrow>
          if pruneFails env (PruneRemove (imagePath fingerprint))
          then (PruneFailed (PruneRemove (imagePath fingerprint)), st1)
          else
            let st2 = st1\<lparr>files := files st1 - {imagePath fingerprint}\<rparr> in
            if pruneFails env (PruneRemove (imagePath fingerprint @ ''.rootfs''))
            then (PruneFailed (PruneRemove (imagePath fingerprint @ ''.rootfs'')), st2)
            else (PruneOK, st2\<lparr>files := files st2 - {imagePath fingerprint @ ''.rootfs''}\<rparr>)
      | (err, st1) \<Rightarrow> (err, st1))"

text \<open>
  The outer loop \<^verbatim>\<open>for fingerprint, dbImages := range allImages\<close>. Go leaves the order
  of a map's keys open; the model takes the order of the list it is given.
  \<open>fpImages\<close> is the loop variable \<^verbatim>\<open>dbImages\<close>.
\<close>

fun pruneFingerprints ::
  "prune_env \<Rightarrow> (string \<rightharpoonup> int) \<Rightarrow> nat \<Rightarrow> (string \<times> Image list) list \<Rightarrow> daemon
    \<Rightarrow> prune_result \<times> daemon" where
  "pruneFingerprints env m k [] st = (PruneOK, st)"
| "pruneFingerprints env m k ((fingerprint, fpImages) # rest) st =
     (if ctxDone env k then (PruneOK, st)
      else case pruneRecords env m fingerprint fpImages 0 st of
        (PruneOK, dbImagesDeleted, st1) \<Rightarrow>
          if dbImagesDeleted < length fpImages then pruneFingerprints env m (Suc k) rest st1
          else (case pruneBlob env fingerprint st1 of
                  (PruneOK, st2) \<Rightarrow> pruneFingerprints env m (Suc k) rest st2
                | (err, st2) \<Rightarrow> (err, st2))
      | (err, dbImagesDeleted, st1) \<Rightarrow> (err, st1))"

text \<open>
  Modelled from the spec: \<^verbatim>\<open>dbCluster.GetImages\<close> with the filter \<^verbatim>\<open>Cached\<close> is not
  under \<^verbatim>\<open>src/\<close>. The cached records of all projects.
\<close>

definition GetCachedImages :: "daemon \<Rightarrow> Image list" where
  "GetCachedImages st = filter imgCached (dbImages st)"

text \<open>\<^verbatim>\<open>allImages\<close>: the cached records keyed by fingerprint.\<close>

definition allImages :: "Image list \<Rightarrow> (string \<times> Image list) list" where
  "allImages images =
     map (\<lambda>fp. (fp, filter (\<lambda>i. imgFingerprint i = fp) images)) (remdups (map imgFingerprint images))"

definition pruneExpiredImages :: "prune_env \<Rightarrow> daemon \<Rightarrow> prune_result \<times> daemon" where
  "pruneExpiredImages env st =
     (if pruneFails env PruneGetProjects then (PruneFailed PruneGetProjects, st)
      else case projectsExpiryDays (globalImageRemoteCacheExpiryDays env) (dbProjects st) Map.empty of
        Inl name \<Rightarrow> (PruneProjectConfig name, st)
      | Inr m \<Rightarrow>
          if pruneFails env PruneGetImages then (PruneFailed PruneGetImages, st)
          else pruneFingerprints env m 0 (allImages (GetCachedImages st)) st)"

subsection \<open>imagePatch\<close>

text \<open>
  A value of a decoded \<^verbatim>\<open>jmap.Map\<close> (\<^verbatim>\<open>map[string]any\<close>), as far as
  \<^verbatim>\<open>imagePatch\<close> looks at it.
\<close>

datatype any = AnyNil | AnyBool bool | AnyString string | AnyOther

text \<open>\<^verbatim>\<open>api.ImagePut\<close>; a nil \<^verbatim>\<open>Properties\<close> map is \<open>None\<close>.\<close>

record ImagePut =
  putAutoUpdate :: bool
  putProperties :: "(string \<rightharpoonup> string) option"
  putPublic :: bool
  putExpiresAt :: int
  putProfiles :: "string list option"

text \<open>
  Modelled from the spec: \<^verbatim>\<open>jmap.Map.GetBool\<close> is not under \<^verbatim>\<open>src/\<close>. It returns
  the value of the key when the key is present and holds a boolean, and an error
  (\<open>None\<close>) otherwise.
\<close>

definition GetBool :: "(string \<rightharpoonup> any) \<Rightarrow> string \<Rightarrow> bool option" where
  "GetBool m key = (case m key of Some (AnyBool b) \<Rightarrow> Some b | _ \<Rightarrow> None)"

text \<open>
  Modelled from the spec: \<^verbatim>\<open>ClusterTx.UpdateImage\<close> is not under \<^verbatim>\<open>src/\<close>. It
  stores the fields it is given in the record with this id; with an empty project it
  leaves the profiles alone.
\<close>

definition UpdateImage ::
  "daemon \<Rightarrow> int \<Rightarrow> string \<Rightarrow> int \<Rightarrow> bool \<Rightarrow> bool \<Rightarrow> string \<Rightarrow> int \<Rightarrow> int
    \<Rightarrow> (string \<rightharpoonup> string) \<Rightarrow> daemon" where
  "UpdateImage st imageID fname sz public autoUpdate architecture createdAt expiresAt properties =
     st\<lparr>dbImages := map (\<lambda>i. if imgID i = imageID
          then i\<lparr>imgFilename := fname, imgSize := sz, imgPublic := public,
                 imgAutoUpdate := autoUpdate, imgArchitecture := architecture,
                 imgCreatedAt := createdAt, imgExpiresAt := expiresAt,
                 imgProperties := properties\<rparr>
          else i) (dbImages st)\<rparr>"

datatype patch_call = PatchPathUnescape | PatchReadAll | PatchUpdateImage

datatype patch_result =
    PatchOK
  | PatchFailed patch_call
  | PatchGetImage get_error
  | PatchPreconditionFailed
  | PatchBadRequest
  | PatchNilMapPanic

record patch_request =
  patchProject :: string
  patchFingerprint :: string
  patchBody :: string

text \<open>
  What \<^verbatim>\<open>imagePatch\<close> asks of code outside \<^verbatim>\<open>src/\<close>: which calls fail, whether
  \<^verbatim>\<open>EtagCheck\<close> accepts the request for the etag (public, auto-update, properties), and
  what \<^verbatim>\<open>encoding/json\<close> decodes the body to, as a \<^verbatim>\<open>jmap.Map\<close> and as an
  \<^verbatim>\<open>api.ImagePut\<close> (\<open>None\<close> is a decoding error).
\<close>

record patch_env =
  patchFails :: "patch_call \<Rightarrow> bool"
  EtagCheck :: "patch_request \<Rightarrow> bool \<times> bool \<times> (string \<rightharpoonup> string) \<Rightarrow> bool"
  decodeMap :: "string \<Rightarrow> (string \<rightharpoonup> any) option"
  decodeImagePut :: "string \<Rightarrow> ImagePut option"

text \<open>
  The block under \<^verbatim>\<open>// Get Properties\<close>: \<^verbatim>\<open>properties\<close> is the request's map, and
  every stored key that the request's map does not have is written into it. Writing into
  a nil map panics, which happens when the request's map is nil and a stored key exists.
\<close>

definition mergeProperties ::
  "(string \<rightharpoonup> string) option \<Rightarrow> (string \<rightharpoonup> string) \<Rightarrow> (string \<rightharpoonup> string) option" where
  "mergeProperties reqProperties infoProperties =
     (case reqProperties of
        None \<Rightarrow> if infoProperties = Map.empty then Some Map.empty else None
      | Some properties \<Rightarrow>
          Some (\<lambda>k. case properties k of Some v \<Rightarrow> Some v | None \<Rightarrow> infoProperties k))"

definition imagePatch :: "patch_env \<Rightarrow> patch_request \<Rightarrow> daemon \<Rightarrow> patch_result \<times> daemon" where
  "imagePatch env r st =
     (if patchFails env PatchPathUnescape then (PatchFailed PatchPathUnescape, st)
      else case GetImage st (patchFingerprint r) (patchProject r) of
        Inl e \<Rightarrow> (PatchGetImage e, st)
      | Inr info \<Rightarrow>
          if \<not> EtagCheck env r (imgPublic info, imgAutoUpdate info, imgProperties info)
          then (PatchPreconditionFailed, st)
          else if patchFails env PatchReadAll then (PatchFailed PatchReadAll, st)
          else case decodeMap env (patchBody r) of
            None \<Rightarrow> (PatchBadRequest, st)
          | Some reqRaw \<Rightarrow>
              (case decodeImagePut env (patchBody r) of
                 None \<Rightarrow> (PatchBadRequest, st)
               | Some req \<Rightarrow>
                   let autoUpdate = (case GetBool reqRaw ''auto_update'' of
                                       Some b \<Rightarrow> b | None \<Rightarrow> imgAutoUpdate info);
                       public = (case GetBool reqRaw ''public'' of
                                   Some b \<Rightarrow> b | None \<Rightarrow> imgPublic info)
                   in case (if reqRaw ''properties'' \<noteq> None
                            then mergeProperties (putProperties req) (imgProperties info)
                            else Some (imgProperties info)) of
                        None \<Rightarrow> (PatchNilMapPanic, st)
                      | Some properties \<Rightarrow>
                          if patchFails env PatchUpdateImage then (PatchFailed PatchUpdateImage, st)
                          else (PatchOK,
                                sendEvents
                                  (UpdateImage st (imgID info) (imgFilename info) (imgSize info)
                                     public autoUpdate (imgArchitecture info) (imgCreatedAt info)
                                     (imgExpiresAt info) properties)
                                  [LifecycleImageUpdated (patchProject r) (imgFingerprint info)])))"

subsection \<open>getImgPostInfo\<close>

text \<open>Go's zero \<^verbatim>\<open>time.Time\<close> (1 January of year 1), in nanoseconds since the Unix epoch.\<close>

definition zeroTime :: int where
  "zeroTime = - 62135596800000000000"

text \<open>\<^verbatim>\<open>time.Unix(sec, 0)\<close>.\<close>

definition timeUnix :: "int \<Rightarrow> int" where
  "timeUnix sec = sec * 1000000000"

text \<open>A part of a multipart body, as \<^verbatim>\<open>multipart.Reader.NextPart\<close> yields it.\<close>

record part =
  partFormName :: string
  partFileName :: string
  partData :: string

text \<open>\<^verbatim>\<open>api.ImageMetadata\<close>, read from \<^verbatim>\<open>metadata.yaml\<close>; a nil map is \<open>None\<close>.\<close>

record ImageMetadata =
  metaArchitecture :: string
  metaCreationDate :: int
  metaExpiryDate :: int
  metaProperties :: "(string \<rightharpoonup> string) option"

text \<open>
  What \<^verbatim>\<open>getImgPostInfo\<close> reads of the request: the headers \<^verbatim>\<open>X-Incus-public\<close>,
  \<^verbatim>\<open>X-Incus-properties\<close> (each value as \<^verbatim>\<open>url.ParseQuery\<close> gives it, a key with its
  first value), \<^verbatim>\<open>X-Incus-profiles\<close> and \<^verbatim>\<open>X-Incus-aliases\<close> (\<open>None\<close> when the
  header is empty, else the values of \<open>profile\<close>, of \<open>alias\<close>), the media type of
  \<^verbatim>\<open>Content-Type\<close>, \<^verbatim>\<open>X-Incus-fingerprint\<close>, \<^verbatim>\<open>X-Incus-filename\<close>, whether the
  request is a cluster notification, and the posted file: its bytes, and the parts a
  multipart reader finds in it.
\<close>

record upload_request =
  upPublic :: string
  upProperties :: "(string \<times> string) list list"
  upProfiles :: "string list option"
  upAliases :: "string list option"
  upContentType :: string
  upFingerprint :: string
  upFilename :: string
  upClusterNotification :: bool
  upParts :: "part list"
  upData :: string

text \<open>
  The \<^verbatim>\<open>metadata\<close> argument, the metadata of the token operation: the keys
  \<open>expires_at\<close>, \<open>properties\<close> (whose value can be a nil map) and \<open>public\<close>, each
  \<open>None\<close> when absent.
\<close>

record token_metadata =
  tokExpiresAt :: "int option"
  tokProperties :: "(string \<rightharpoonup> string) option option"
  tokPublic :: "bool option"

datatype upload_call =
    UpCreateTemp
  | UpSeek
  | UpCopyMetadata
  | UpCreateTempRootfs
  | UpCopyRootfs
  | UpMoveImage
  | UpMoveRootfs
  | UpCopyPost
  | UpMovePost
  | UpGetProfile string
  | UpImageExists
  | UpAddImageToLocalNode
  | UpCreateImage

text \<open>
  The errors of \<^verbatim>\<open>getImgPostInfo\<close>: a failing call, no next part, "Invalid multipart
  image", "fingerprints don't match", an error of \<^verbatim>\<open>getImageMetadata\<close>, "Profile
  doesn't exist", and the panic of an assignment to an entry of a nil map.
\<close>

datatype upload_error =
    UploadFailed upload_call
  | UploadNoPart
  | UploadInvalidMultipart
  | UploadFingerprintMismatch
  | UploadBadMetadata
  | UploadProfileMissing string
  | UploadNilMapPanic

text \<open>
  The result: \<^verbatim>\<open>(&info, nil)\<close>, \<^verbatim>\<open>(nil, err)\<close>, or \<^verbatim>\<open>&info\<close> together with the
  error "Image with same fingerprint already exists".
\<close>

datatype upload_result =
    UploadOK Image
  | UploadError upload_error
  | UploadAlreadyExists Image

text \<open>
  What \<^verbatim>\<open>getImgPostInfo\<close> asks of code outside \<^verbatim>\<open>src/\<close>: which calls fail, the
  hexadecimal SHA-256 digest of a byte string, \<^verbatim>\<open>util.IsTrue\<close>, the id of a profile of
  a project, the current time, and what \<^verbatim>\<open>getImageMetadata\<close> reads from a tarball (the
  metadata and the image type, \<open>None\<close> for an error).
\<close>

record upload_env =
  upFails :: "upload_call \<Rightarrow> bool"
  sha256hex :: "string \<Rightarrow> string"
  IsTrue :: "string \<Rightarrow> bool"
  profileID :: "string \<Rightarrow> string \<Rightarrow> int option"
  uploadTime :: int
  getImageMetadata :: "string \<Rightarrow> (ImageMetadata \<times> string) option"

text \<open>\<^verbatim>\<open>info := api.Image{}\<close>.\<close>

definition emptyImage :: Image where
  "emptyImage =
     \<lparr>imgID = 0, imgProject = [], imgFingerprint = [], imgFilename = [], imgSize = 0,
      imgPublic = False, imgAutoUpdate = False, imgArchitecture = [], imgCreatedAt = zeroTime,
      imgExpiresAt = zeroTime, imgProperties = Map.empty, imgType = [], imgCached = False,
      imgUploadDate = zeroTime, imgLastUseDate = None, imgAliases = []\<rparr>"

text \<open>
  Modelled from the spec: \<^verbatim>\<open>ClusterTx.CreateImage\<close> is not under \<^verbatim>\<open>src/\<close>. It adds
  a record of the project with a new id and the fields it is given, held by this member.
\<close>

definition CreateImage :: "daemon \<Rightarrow> string \<Rightarrow> Image \<Rightarrow> int \<Rightarrow> daemon" where
  "CreateImage st project info now =
     (let newID = fold max (map imgID (dbImages st)) 0 + 1 in
      st\<lparr>dbImages := dbImages st @ [info\<lparr>imgID := newID, imgProject := project, imgUploadDate := now\<rparr>],
         dbImagesNodes := dbImagesNodes st @ [(newID, localNode st)]\<rparr>)"

text \<open>
  Modelled from the spec: \<^verbatim>\<open>ClusterTx.AddImageToLocalNode\<close> is not under \<^verbatim>\<open>src/\<close>.
  It registers this server as a holder of the project's record of the fingerprint.
\<close>

definition AddImageToLocalNode :: "daemon \<Rightarrow> string \<Rightarrow> string \<Rightarrow> daemon" where
  "AddImageToLocalNode st project fingerprint =
     st\<lparr>dbImagesNodes := dbImagesNodes st
          @ map (\<lambda>i. (imgID i, localNode st))
              (filter (\<lambda>i. imgProject i = project \<and> imgFingerprint i = fingerprint) (dbImages st))\<rparr>"

text \<open>
  The branch \<^verbatim>\<open>ctype == "multipart/form-data"\<close>: the fields of \<open>info\<close> it sets, the
  metadata of the image, and the store with the two files moved into place.
\<close>

definition uploadMultipart ::
  "upload_env \<Rightarrow> upload_request \<Rightarrow> Image \<Rightarrow> daemon
    \<Rightarrow> (upload_error + Image \<times> ImageMetadata) \<times> daemon" where
  "uploadMultipart env r info st =
     (if upFails env UpCreateTemp then (Inl (UploadFailed UpCreateTemp), st)
      else if upFails env UpSeek then (Inl (UploadFailed UpSeek), st)
      else case upParts r of
        [] \<Rightarrow> (Inl UploadNoPart, st)
      | metadataPart # parts \<Rightarrow>
          if partFormName metadataPart \<noteq> ''metadata'' then (Inl UploadInvalidMultipart, st)
          else if upFails env UpCopyMetadata then (Inl (UploadFailed UpCopyMetadata), st)
          else case parts of
            [] \<Rightarrow> (Inl UploadNoPart, st)
          | rootfsPart # _ \<Rightarrow>
              if partFormName rootfsPart \<noteq> ''rootfs'' \<and> partFormName rootfsPart \<noteq> ''rootfs.img''
              then (Inl UploadInvalidMultipart, st)
              else if upFails env UpCreateTempRootfs then (Inl (UploadFailed UpCreateTempRootfs), st)
              else if upFails env UpCopyRootfs then (Inl (UploadFailed UpCopyRootfs), st)
              else
                let info1 = info\<lparr>
                      imgType := (if partFormName rootfsPart = ''rootfs''
                                  then ''container'' else ''virtual-machine''),
                      imgSize := imgSize info + int (length (partData metadataPart))
                                   + int (length (partData rootfsPart)),
                      imgFilename := partFileName rootfsPart,
                      imgFingerprint := sha256hex env (partData metadataPart @ partData rootfsPart)\<rparr>
                in if upFingerprint r \<noteq> [] \<and> imgFingerprint info1 \<noteq> upFingerprint r
                   then (Inl UploadFingerprintMismatch, st)
                   else case getImageMetadata env (partData metadataPart) of
                     None \<Rightarrow> (Inl UploadBadMetadata, st)
                   | Some (imageMeta, imageType) \<Rightarrow>
                       if upFails env UpMoveImage then (Inl (UploadFailed UpMoveImage), st)
                       else
                         let st1 = st\<lparr>files := insert (imagePath (imgFingerprint info1)) (files st)\<rparr>
                         in if upFails env UpMoveRootfs then (Inl (UploadFailed UpMoveRootfs), st1)
                            else (Inr (info1, imageMeta),
                                  st1\<lparr>files := insert (imagePath (imgFingerprint info1 @ ''.rootfs''))
                                                 (files st1)\<rparr>))"

text \<open>The other branch: the posted file is the image tarball.\<close>

definition uploadTarball ::
  "upload_env \<Rightarrow> upload_request \<Rightarrow> Image \<Rightarrow> daemon
    \<Rightarrow> (upload_error + Image \<times> ImageMetadata) \<times> daemon" where
  "uploadTarball env r info st =
     (if upFails env UpSeek then (Inl (UploadFailed UpSeek), st)
      else if upFails env UpCopyPost then (Inl (UploadFailed UpCopyPost), st)
      else
        let info1 = info\<lparr>imgSize := int (length (upData r)), imgFilename := upFilename r,
                          imgFingerprint := sha256hex env (upData r)\<rparr>
        in if upFingerprint r \<noteq> [] \<and> imgFingerprint info1 \<noteq> upFingerprint r
           then (Inl UploadFingerprintMismatch, st)
           else case getImageMetadata env (upData r) of
             None \<Rightarrow> (Inl UploadBadMetadata, st)
           | Some (imageMeta, imageType) \<Rightarrow>
               if upFails env UpMovePost then (Inl (UploadFailed UpMovePost), st)
               else (Inr (info1\<lparr>imgType := imageType\<rparr>, imageMeta),
                     st\<lparr>files := insert (imagePath (imgFingerprint info1)) (files st)\<rparr>))"

text \<open>
  The properties of the image: those of the token metadata when it has the key, else
  those of the image metadata; then every key of the \<^verbatim>\<open>X-Incus-properties\<close> headers is
  written into that map, which panics when the map is nil.
\<close>

definition uploadProperties ::
  "upload_request \<Rightarrow> token_metadata \<Rightarrow> ImageMetadata \<Rightarrow> upload_error + (string \<rightharpoonup> string) option" where
  "uploadProperties r metadata imageMeta =
     (let properties = (case tokProperties metadata of
                          Some p \<Rightarrow> p | None \<Rightarrow> metaProperties imageMeta)
      in if concat (upProperties r) = [] then Inr properties
         else case properties of
           None \<Rightarrow> Inl UploadNilMapPanic
         | Some p \<Rightarrow> Inr (Some (fold (\<lambda>(k, v) m. m(k \<mapsto> v)) (concat (upProperties r)) p)))"

text \<open>The loop that looks the profiles of \<^verbatim>\<open>X-Incus-profiles\<close> up.\<close>

fun uploadProfiles :: "upload_env \<Rightarrow> string \<Rightarrow> string list \<Rightarrow> upload_error + int list" where
  "uploadProfiles env project [] = Inr []"
| "uploadProfiles env project (val # rest) =
     (case profileID env project val of
        None \<Rightarrow> Inl (UploadProfileMissing val)
      | Some pid \<Rightarrow>
          if upFails env (UpGetProfile val) then Inl (UploadFailed (UpGetProfile val))
          else case uploadProfiles env project rest of
            Inl e \<Rightarrow> Inl e
          | Inr ids \<Rightarrow> Inr (pid # ids))"

text \<open>
  The end of \<^verbatim>\<open>getImgPostInfo\<close>, from \<^verbatim>\<open>var exists bool\<close> on: when the project has a
  record of the fingerprint, a cluster notification registers this server as a holder and
  any other request gets the already-exists error; else the record is created.
\<close>

definition uploadRegister ::
  "upload_env \<Rightarrow> upload_request \<Rightarrow> string \<Rightarrow> token_metadata \<Rightarrow> Image \<Rightarrow> daemon
    \<Rightarrow> upload_result \<times> daemon" where
  "uploadRegister env r project metadata info st =
     (if upFails env UpImageExists then (UploadError (UploadFailed UpImageExists), st)
      else if ImageExists st project (imgFingerprint info) then
        if upClusterNotification r then
          if upFails env UpAddImageToLocalNode
          then (UploadError (UploadFailed UpAddImageToLocalNode), st)
          else (UploadOK info, AddImageToLocalNode st project (imgFingerprint info))
        else (UploadAlreadyExists info, st)
      else
        let info1 = (case tokPublic metadata of
                       Some public \<Rightarrow> info\<lparr>imgPublic := public\<rparr> | None \<Rightarrow> info)
        in if upFails env UpCreateImage then (UploadError (UploadFailed UpCreateImage), st)
           else (UploadOK info1, CreateImage st project info1 (uploadTime env)))"

text \<open>
  The fields \<^verbatim>\<open>getImgPostInfo\<close> fills in after the body is stored: architecture,
  creation and expiry date, properties and aliases.
\<close>

definition uploadInfo ::
  "upload_request \<Rightarrow> token_metadata \<Rightarrow> ImageMetadata \<Rightarrow> Image \<Rightarrow> upload_error + Image" where
  "uploadInfo r metadata imageMeta info =
     (let info1 = info\<lparr>
            imgArchitecture := metaArchitecture imageMeta,
            imgCreatedAt := (if metaCreationDate imageMeta > 0
                             then timeUnix (metaCreationDate imageMeta) else imgCreatedAt info),
            imgExpiresAt := (case tokExpiresAt metadata of
                               Some t \<Rightarrow> t
                             | None \<Rightarrow> if metaExpiryDate imageMeta > 0
                                 then timeUnix (metaExpiryDate imageMeta) else imgExpiresAt info)\<rparr>
      in case uploadProperties r metadata imageMeta of
        Inl e \<Rightarrow> Inl e
      | Inr properties \<Rightarrow>
          Inr (info1\<lparr>
            imgProperties := (case properties of None \<Rightarrow> Map.empty | Some p \<Rightarrow> p),
            imgAliases := (case upAliases r of None \<Rightarrow> imgAliases info | Some names \<Rightarrow> names)\<rparr>))"

definition getImgPostInfo ::
  "upload_env \<Rightarrow> upload_request \<Rightarrow> string \<Rightarrow> token_metadata \<Rightarrow> daemon \<Rightarrow> upload_result \<times> daemon" where
  "getImgPostInfo env r project metadata st =
     (let info = emptyImage\<lparr>imgPublic := IsTrue env (upPublic r)\<rparr> in
      case (if upContentType r = ''multipart/form-data''
            then uploadMultipart env r info st else uploadTarball env r info st) of
        (Inl e, st1) \<Rightarrow> (UploadError e, st1)
      | (Inr (info1, imageMeta), st1) \<Rightarrow>
          (case uploadInfo r metadata imageMeta info1 of
             Inl e \<Rightarrow> (UploadError e, st1)
           | Inr info2 \<Rightarrow>
               (case (case upProfiles r of
                        None \<Rightarrow> Inr []
                      | Some names \<Rightarrow> uploadProfiles env project names) of
                  Inl e \<Rightarrow> (UploadError e, st1)
                | Inr profileIds \<Rightarrow> uploadRegister env r project metadata info2 st1)))"

text \<open>
  The part of \<^verbatim>\<open>getImgPostInfo\<close> before \<^verbatim>\<open>var exists bool\<close>: the body is stored and
  hashed, and \<open>info\<close> is filled in from the metadata, the token and the headers. The
  result is the error the function returns there, or \<open>info\<close> as the existence check
  receives it.
\<close>

definition uploadStage ::
  "upload_env \<Rightarrow> upload_request \<Rightarrow> string \<Rightarrow> token_metadata \<Rightarrow> daemon
    \<Rightarrow> (upload_error + Image) \<times> daemon" where
  "uploadStage env r project metadata st =
     (let info = emptyImage\<lparr>imgPublic := IsTrue env (upPublic r)\<rparr> in
      case (if upContentType r = ''multipart/form-data''
            then uploadMultipart env r info st else uploadTarball env r info st) of
        (Inl e, st1) \<Rightarrow> (Inl e, st1)
      | (Inr (info1, imageMeta), st1) \<Rightarrow>
          (case uploadInfo r metadata imageMeta info1 of
             Inl e \<Rightarrow> (Inl e, st1)
           | Inr info2 \<Rightarrow>
               (case (case upProfiles r of
                        None \<Rightarrow> Inr []
                      | Some names \<Rightarrow> uploadProfiles env project names) of
                  Inl e \<Rightarrow> (Inl e, st1)
                | Inr profileIds \<Rightarrow> (Inr info2, st1))))"

text \<open>The fingerprint \<^verbatim>\<open>getImgPostInfo\<close> computes for a request.\<close>

definition uploadFingerprint :: "upload_env \<Rightarrow> upload_request \<Rightarrow> string" where
  "uploadFingerprint env r =
     (if upContentType r = ''multipart/form-data''
      then (case upParts r of
              metadataPart # rootfsPart # _ \<Rightarrow>
                sha256hex env (partData metadataPart @ partData rootfsPart)
            | _ \<Rightarrow> [])
      else sha256hex env (upData r))"

subsection \<open>imgPostInstanceInfo\<close>

datatype publish_call = PubGetImage | PubMoveMeta | PubMoveRootfs | PubCreateImage

datatype publish_result =
    PublishOK Image
  | PublishFailed publish_call
  | PublishGetImage get_error
  | PublishAlreadyExists Image

text \<open>
  What the end of \<^verbatim>\<open>imgPostInstanceInfo\<close> reads: the project of the request, whether
  the request is a cluster notification (the function never asks), whether the format is
  split, the project and the architecture name of the instance, and the properties of the
  exported metadata.
\<close>

record publish_request =
  pubProject :: string
  pubClusterNotification :: bool
  pubSplit :: bool
  pubInstanceProject :: string
  pubArchitecture :: string
  pubProperties :: "string \<rightharpoonup> string"

text \<open>
  The end of \<^verbatim>\<open>imgPostInstanceInfo\<close>, from the transaction that looks the fingerprint
  up, once the image is built and \<open>info\<close> has its fingerprint: when \<^verbatim>\<open>GetImage\<close> does not
  answer not-found, the result is its error or "The image already exists"; else the files
  are moved into place and the record is created.
\<close>

definition imgPostInstanceInfo_register ::
  "(publish_call \<Rightarrow> bool) \<Rightarrow> int \<Rightarrow> publish_request \<Rightarrow> Image \<Rightarrow> daemon \<Rightarrow> publish_result \<times> daemon" where
  "imgPostInstanceInfo_register publishFails now r info st =
     (if publishFails PubGetImage then (PublishFailed PubGetImage, st)
      else case GetImage st (imgFingerprint info) (pubProject r) of
        Inl GetAmbiguous \<Rightarrow> (PublishGetImage GetAmbiguous, st)
      | Inr existing \<Rightarrow> (PublishAlreadyExists info, st)
      | Inl GetNotFound \<Rightarrow>
          if publishFails PubMoveMeta then (PublishFailed PubMoveMeta, st)
          else
            let st1 = st\<lparr>files := insert (imagePath (imgFingerprint info)) (files st)\<rparr>
            in if pubSplit r \<and> publishFails PubMoveRootfs then (PublishFailed PubMoveRootfs, st1)
               else
                 let st2 = (if pubSplit r
                            then st1\<lparr>files := insert (imagePath (imgFingerprint info @ ''.rootfs'')) (files st1)\<rparr>
                            else st1);
                     info1 = info\<lparr>imgArchitecture := pubArchitecture r,
                                    imgProperties := pubProperties r\<rparr>
                 in if publishFails PubCreateImage then (PublishFailed PubCreateImage, st2)
                    else (PublishOK info1, CreateImage st2 (pubInstanceProject r) info1 now))"

section \<open>Operations and image tokens\<close>

text \<open>
  The status of an operation: pending, then running, then one of success, failure and
  cancelled (through cancelling).
\<close>

datatype op_status = Pending | Running | Cancelling | Cancelled | Success | Failure

datatype op_type = ImageToken | ImageDownload | ImageDelete | OtherOperation












section \<open>Sample data\<close>

text \<open>A small store for the worked examples: image records and a member with one pool.\<close>

definition sample_image :: "int \<Rightarrow> string \<Rightarrow> string \<Rightarrow> bool \<Rightarrow> Image" where
  "sample_image n project fingerprint cached =
     \<lparr>imgID = n, imgProject = project, imgFingerprint = fingerprint, imgFilename = ''image.tar.xz'',
      imgSize = 17, imgPublic = False, imgAutoUpdate = False, imgArchitecture = ''x86_64'',
      imgCreatedAt = 0, imgExpiresAt = 0, imgProperties = [''os'' \<mapsto> ''Alpine''],
      imgType = ''container'', imgCached = cached, imgUploadDate = 0, imgLastUseDate = None,
      imgAliases = []\<rparr>"

definition sample_daemon :: "Image list \<Rightarrow> daemon" where
  "sample_daemon imgs =
     \<lparr>dbImages = imgs, dbImagesNodes = map (\<lambda>i. (imgID i, ''node1'')) imgs,
      dbProjects = [(''default'', Map.empty), (''dev'', Map.empty)],
      volumes = [(''pool0'', ''abc123'')], remotePools = {}, peers = [''node2''],
      localNode = ''node1'', files = {''images/abc123''}, events = []\<rparr>"

subsection \<open>Sample upload\<close>

text \<open>
  An environment in which no call fails, with a stand-in for the digest, and a multipart
  request whose rootfs part has the given form name.
\<close>

definition sample_upload_env :: upload_env where
  "sample_upload_env =
     \<lparr>upFails = (\<lambda>c. False),
      sha256hex = (\<lambda>d. if d = ''metarootfs'' then ''abc123'' else ''000000''),
      IsTrue = (\<lambda>s. s = ''true''),
      profileID = (\<lambda>project name. Some 1),
      uploadTime = 0,
      getImageMetadata = (\<lambda>d. Some (\<lparr>metaArchitecture = ''x86_64'', metaCreationDate = 1,
         metaExpiryDate = 0, metaProperties = None\<rparr>, ''container''))\<rparr>"

definition sample_upload :: "string \<Rightarrow> bool \<Rightarrow> upload_request" where
  "sample_upload rootfsName notification =
     \<lparr>upPublic = [], upProperties = [], upProfiles = None, upAliases = None,
      upContentType = ''multipart/form-data'', upFingerprint = [], upFilename = [],
      upClusterNotification = notification,
      upParts = [\<lparr>partFormName = ''metadata'', partFileName = ''meta.tar.xz'', partData = ''meta''\<rparr>,
                 \<lparr>partFormName = rootfsName, partFileName = ''rootfs.squashfs'', partData = ''rootfs''\<rparr>],
      upData = []\<rparr>"

definition no_token :: token_metadata where
  "no_token = \<lparr>tokExpiresAt = None, tokProperties = None, tokPublic = None\<rparr>"


section \<open>Properties of validateNewConfig\<close>

subsection \<open>The loop\<close>

lemma validateLoop_Inr:
  "validateLoop oldNodes i newNodes n = Inr m \<longleftrightarrow>
     (\<forall>k < length newNodes. i + k < length oldNodes
         \<and> \<not> member_rejected (oldNodes ! (i + k)) (newNodes ! k))
     \<and> m = n + voters newNodes"
proof (induction newNodes arbitrary: i n)
  case Nil
  show ?case by (auto simp: voters_def)
next
  case (Cons x xs)
  show ?case
  proof (cases "length oldNodes \<le> i")
    case True
    then have eq: "validateLoop oldNodes i (x # xs) n = Inl IndexPanic" by simp
    have stop: "validateLoop oldNodes i (x # xs) n \<noteq> Inr m"
      unfolding eq by simp
    from True have "\<not> (\<forall>k < length (x # xs). i + k < length oldNodes
         \<and> \<not> member_rejected (oldNodes ! (i + k)) ((x # xs) ! k))"
      by (auto intro!: exI[of _ 0])
    with stop show ?thesis by blast
  next
    case False
    show ?thesis
    proof (cases "member_rejected (oldNodes ! i) x")
      case True
      with False have "\<exists>e. validateLoop oldNodes i (x # xs) n = Inl e"
        by (auto simp: member_rejected_def Let_def)
      then obtain e where eq: "validateLoop oldNodes i (x # xs) n = Inl e" ..
      have stop: "validateLoop oldNodes i (x # xs) n \<noteq> Inr m"
        unfolding eq by simp
      from True have "\<not> (\<forall>k < length (x # xs). i + k < length oldNodes
         \<and> \<not> member_rejected (oldNodes ! (i + k)) ((x # xs) ! k))"
        by (auto intro!: exI[of _ 0])
      with stop show ?thesis by blast
    next
      case ok: False
      let ?n' = "if Role x = RaftVoter then n + 1 else n"
      from False ok have step: "validateLoop oldNodes i (x # xs) n
          = validateLoop oldNodes (Suc i) xs ?n'"
        by (auto simp: member_rejected_def Let_def)
      have all: "(\<forall>k < length (x # xs). i + k < length oldNodes
            \<and> \<not> member_rejected (oldNodes ! (i + k)) ((x # xs) ! k))
          \<longleftrightarrow> (\<forall>k < length xs. Suc i + k < length oldNodes
            \<and> \<not> member_rejected (oldNodes ! (Suc i + k)) (xs ! k))"
        using False ok by (simp add: All_less_Suc2)
      have cnt: "?n' + voters xs = n + voters (x # xs)"
        by (simp add: voters_def)
      show ?thesis
        unfolding step Cons.IH all using cnt by auto
    qed
  qed
qed

lemma validateLoop_no_panic:
  "i + length newNodes \<le> length oldNodes \<Longrightarrow> validateLoop oldNodes i newNodes n \<noteq> Inl IndexPanic"
proof (induction newNodes arbitrary: i n)
  case Nil
  show ?case by simp
next
  case (Cons x xs)
  then have "Suc i + length xs \<le> length oldNodes" and "\<not> length oldNodes \<le> i" by auto
  with Cons.IH show ?case by (auto simp: Let_def)
qed

lemma validateLoop_not_NilError:
  "validateLoop oldNodes i newNodes n \<noteq> Inl NilError"
  by (induction newNodes arbitrary: i n) (auto simp: Let_def)

subsection \<open>validateNewConfig as a whole\<close>

lemma validateNewConfig_no_panic: "validateNewConfig oldNodes newNodes \<noteq> IndexPanic"
proof (cases "length oldNodes = length newNodes")
  case True
  then have "validateLoop oldNodes 0 newNodes 0 \<noteq> Inl IndexPanic"
    by (intro validateLoop_no_panic) simp
  then show ?thesis
    by (auto simp: validateNewConfig_def split: sum.splits)
next
  case False
  then show ?thesis by (auto simp: validateNewConfig_def)
qed

lemma validateNewConfig_NilError_iff:
  "validateNewConfig oldNodes newNodes = NilError \<longleftrightarrow> \<not> config_rejected oldNodes newNodes"
proof (cases "length oldNodes = length newNodes")
  case False
  then show ?thesis by (auto simp: validateNewConfig_def config_rejected_def)
next
  case len: True
  show ?thesis
  proof (cases "validateLoop oldNodes 0 newNodes 0")
    case (Inl e)
    then have "e \<noteq> NilError" using validateLoop_not_NilError by metis
    moreover from Inl have "\<not> (\<forall>k < length newNodes. 0 + k < length oldNodes
         \<and> \<not> member_rejected (oldNodes ! (0 + k)) (newNodes ! k))"
      using validateLoop_Inr[of oldNodes 0 newNodes 0 "voters newNodes"] by simp
    then have "\<exists>i < length newNodes. member_rejected (oldNodes ! i) (newNodes ! i)"
      using len by auto
    ultimately show ?thesis using Inl len
      by (simp add: validateNewConfig_def config_rejected_def)
  next
    case (Inr m)
    then have all: "\<forall>k < length newNodes. \<not> member_rejected (oldNodes ! k) (newNodes ! k)"
      and m: "m = voters newNodes"
      using validateLoop_Inr[of oldNodes 0 newNodes 0 m] by auto
    show ?thesis using Inr len all m
      by (auto simp: validateNewConfig_def config_rejected_def quorum_rejected_def)
  qed
qed

lemma validateNewConfig_cases:
  "validateNewConfig oldNodes newNodes = NilError \<or> is_error (validateNewConfig oldNodes newNodes)"
  using validateNewConfig_no_panic[of oldNodes newNodes]
  by (cases "validateNewConfig oldNodes newNodes") (auto simp: is_error_def)

lemma member_rejected_same: "\<not> member_rejected n n"
  by (simp add: member_rejected_def)

text \<open>
  Claim C2, as stated: \<^verbatim>\<open>validateNewConfig\<close> returns an error whenever a member's
  non-empty name is changed. It does not: a single voter named "node1" whose name is
  blanked in the new configuration has its non-empty name changed, so the stated
  conditions hold, and \<^verbatim>\<open>validateNewConfig\<close> returns nil, because the name check
  only fires when the new name is non-empty too.
\<close>

theorem validateNewConfig_blank_name_counterexample:
  "config_rejected_spec
     [\<lparr>ID = 1, Address = ''10.0.0.1:8443'', Role = RaftVoter, Name = ''node1''\<rparr>]
     [\<lparr>ID = 1, Address = ''10.0.0.1:8443'', Role = RaftVoter, Name = []\<rparr>]
   \<and> validateNewConfig
     [\<lparr>ID = 1, Address = ''10.0.0.1:8443'', Role = RaftVoter, Name = ''node1''\<rparr>]
     [\<lparr>ID = 1, Address = ''10.0.0.1:8443'', Role = RaftVoter, Name = []\<rparr>] = NilError"
  by (simp add: config_rejected_spec_def member_rejected_spec_def validateNewConfig_def)

text \<open>
  Claim C2, amended: \<^verbatim>\<open>validateNewConfig\<close> returns an error exactly when the new
  list is shorter or longer than the old one, or some member's id differs from the id at
  the same position of the old list, or some member's name is changed where both the old
  and the new name are non-empty, or a member whose old role is spare is given role voter,
  or the new configuration has no voter, or it has more than 2 members and fewer than 2
  voters. Otherwise it returns nil.
\<close>

theorem validateNewConfig_error_iff:
  "(is_error (validateNewConfig oldNodes newNodes) \<longleftrightarrow> config_rejected oldNodes newNodes)
   \<and> (validateNewConfig oldNodes newNodes = NilError \<longleftrightarrow> \<not> config_rejected oldNodes newNodes)"
  using validateNewConfig_NilError_iff[of oldNodes newNodes]
    validateNewConfig_cases[of oldNodes newNodes]
  by (auto simp: is_error_def)

theorem validateNewConfig_error_iff_witness:
  "config_rejected
     [\<lparr>ID = 1, Address = ''a'', Role = RaftVoter, Name = ''n1''\<rparr>,
      \<lparr>ID = 2, Address = ''b'', Role = RaftVoter, Name = ''n2''\<rparr>,
      \<lparr>ID = 3, Address = ''c'', Role = RaftVoter, Name = ''n3''\<rparr>]
     [\<lparr>ID = 1, Address = ''a'', Role = RaftVoter, Name = ''n1''\<rparr>,
      \<lparr>ID = 2, Address = ''b'', Role = RaftStandBy, Name = ''n2''\<rparr>,
      \<lparr>ID = 3, Address = ''c'', Role = RaftSpare, Name = ''n3''\<rparr>]
   \<and> \<not> config_rejected
     [\<lparr>ID = 1, Address = ''a'', Role = RaftVoter, Name = ''n1''\<rparr>,
      \<lparr>ID = 2, Address = ''b'', Role = RaftSpare, Name = []\<rparr>]
     [\<lparr>ID = 1, Address = ''z'', Role = RaftVoter, Name = []\<rparr>,
      \<lparr>ID = 2, Address = ''b'', Role = RaftStandBy, Name = ''n2''\<rparr>]"
proof -
  have a: "validateNewConfig
     [\<lparr>ID = 1, Address = ''a'', Role = RaftVoter, Name = ''n1''\<rparr>,
      \<lparr>ID = 2, Address = ''b'', Role = RaftVoter, Name = ''n2''\<rparr>,
      \<lparr>ID = 3, Address = ''c'', Role = RaftVoter, Name = ''n3''\<rparr>]
     [\<lparr>ID = 1, Address = ''a'', Role = RaftVoter, Name = ''n1''\<rparr>,
      \<lparr>ID = 2, Address = ''b'', Role = RaftStandBy, Name = ''n2''\<rparr>,
      \<lparr>ID = 3, Address = ''c'', Role = RaftSpare, Name = ''n3''\<rparr>] = Error ErrTwoVoters"
    by (simp add: validateNewConfig_def)
  have b: "validateNewConfig
     [\<lparr>ID = 1, Address = ''a'', Role = RaftVoter, Name = ''n1''\<rparr>,
      \<lparr>ID = 2, Address = ''b'', Role = RaftSpare, Name = []\<rparr>]
     [\<lparr>ID = 1, Address = ''z'', Role = RaftVoter, Name = []\<rparr>,
      \<lparr>ID = 2, Address = ''b'', Role = RaftStandBy, Name = ''n2''\<rparr>] = NilError"
    by (simp add: validateNewConfig_def)
  from a have a': "is_error (validateNewConfig
     [\<lparr>ID = 1, Address = ''a'', Role = RaftVoter, Name = ''n1''\<rparr>,
      \<lparr>ID = 2, Address = ''b'', Role = RaftVoter, Name = ''n2''\<rparr>,
      \<lparr>ID = 3, Address = ''c'', Role = RaftVoter, Name = ''n3''\<rparr>]
     [\<lparr>ID = 1, Address = ''a'', Role = RaftVoter, Name = ''n1''\<rparr>,
      \<lparr>ID = 2, Address = ''b'', Role = RaftStandBy, Name = ''n2''\<rparr>,
      \<lparr>ID = 3, Address = ''c'', Role = RaftSpare, Name = ''n3''\<rparr>])"
    by (simp only: is_error_def) blast
  show ?thesis
    using a' b validateNewConfig_error_iff by blast
qed

text \<open>
  Claim C9: \<^verbatim>\<open>validateNewConfig\<close> is total, it ends with nil or an error for every
  pair of member lists (the read \<^verbatim>\<open>oldNodes[i]\<close> is never out of range), and it is
  idempotent: when \<^verbatim>\<open>validateNewConfig(oldNodes, newNodes)\<close> returns nil, so does
  \<^verbatim>\<open>validateNewConfig(newNodes, newNodes)\<close>.
\<close>

theorem validateNewConfig_total_idempotent:
  "(validateNewConfig oldNodes newNodes = NilError \<or> is_error (validateNewConfig oldNodes newNodes))
   \<and> (validateNewConfig oldNodes newNodes = NilError
        \<longrightarrow> validateNewConfig newNodes newNodes = NilError)"
proof
  show "validateNewConfig oldNodes newNodes = NilError \<or> is_error (validateNewConfig oldNodes newNodes)"
    by (rule validateNewConfig_cases)
next
  show "validateNewConfig oldNodes newNodes = NilError
        \<longrightarrow> validateNewConfig newNodes newNodes = NilError"
  proof
    assume "validateNewConfig oldNodes newNodes = NilError"
    then have "\<not> config_rejected oldNodes newNodes"
      by (simp add: validateNewConfig_NilError_iff)
    then have "\<not> quorum_rejected newNodes"
      by (simp add: config_rejected_def)
    then have "\<not> config_rejected newNodes newNodes"
      by (simp add: config_rejected_def member_rejected_same)
    then show "validateNewConfig newNodes newNodes = NilError"
      by (simp add: validateNewConfig_NilError_iff)
  qed
qed

theorem validateNewConfig_total_idempotent_witness:
  "validateNewConfig
     [\<lparr>ID = 1, Address = ''a'', Role = RaftVoter, Name = ''n1''\<rparr>,
      \<lparr>ID = 2, Address = ''b'', Role = RaftSpare, Name = ''n2''\<rparr>]
     [\<lparr>ID = 1, Address = ''a'', Role = RaftVoter, Name = ''n1''\<rparr>,
      \<lparr>ID = 2, Address = ''c'', Role = RaftStandBy, Name = ''n2''\<rparr>] = NilError
   \<and> validateNewConfig
     [\<lparr>ID = 1, Address = ''a'', Role = RaftVoter, Name = ''n1''\<rparr>,
      \<lparr>ID = 2, Address = ''c'', Role = RaftStandBy, Name = ''n2''\<rparr>]
     [\<lparr>ID = 1, Address = ''a'', Role = RaftVoter, Name = ''n1''\<rparr>,
      \<lparr>ID = 2, Address = ''c'', Role = RaftStandBy, Name = ''n2''\<rparr>] = NilError"
proof -
  have a: "validateNewConfig
     [\<lparr>ID = 1, Address = ''a'', Role = RaftVoter, Name = ''n1''\<rparr>,
      \<lparr>ID = 2, Address = ''b'', Role = RaftSpare, Name = ''n2''\<rparr>]
     [\<lparr>ID = 1, Address = ''a'', Role = RaftVoter, Name = ''n1''\<rparr>,
      \<lparr>ID = 2, Address = ''c'', Role = RaftStandBy, Name = ''n2''\<rparr>] = NilError"
    by (simp add: validateNewConfig_def)
  with validateNewConfig_total_idempotent show ?thesis by blast
qed

section \<open>Properties of the migration source and sink\<close>

lemma sourceConnsLoop_dom:
  "sourceConnsLoop env cert opURL secrets names k conns = Inr conns'
     \<Longrightarrow> dom conns' = dom conns \<union> set names"
proof (induction names arbitrary: k conns)
  case Nil
  then show ?case by simp
next
  case (Cons n ns)
  then show ?case
    by (fastforce split: if_splits option.splits)
qed

lemma sinkConnsLoop_dom:
  "sinkConnsLoop env args names k conns = Inr conns'
     \<Longrightarrow> dom conns' = dom conns \<union> set names"
proof (induction names arbitrary: k conns)
  case Nil
  then show ?case by simp
next
  case (Cons n ns)
  then show ?case
    by (fastforce split: if_splits option.splits)
qed

lemma newMigrationSource_Inr:
  assumes "newMigrationSource env inst stateful instanceOnly allowInconsistent cm sp pt = Inr s"
  shows "srcLive s = (stateful \<and> instIsRunning inst)
    \<and> dom (srcConns s) = channels_spec (srcLive s)
    \<and> (srcLive s \<and> instType inst = Container \<longrightarrow> lookPathCriu env)"
proof -
  let ?live = "stateful \<and> instIsRunning inst"
  let ?names = "if ?live then [SecretNameControl, SecretNameFilesystem] @ [SecretNameState]
                else [SecretNameControl, SecretNameFilesystem]"
  from assms have criu: "\<not> (stateful \<and> instIsRunning inst \<and> instType inst = Container \<and> \<not> lookPathCriu env)"
    by (auto simp: newMigrationSource_def Let_def split: if_splits)
  with assms obtain cert opURL secrets conns where
    loop: "sourceConnsLoop env cert opURL secrets ?names 0 Map.empty = Inr conns"
    and s: "srcConns s = conns" "srcLive s = ?live"
    by (auto simp: newMigrationSource_def Let_def simp del: sourceConnsLoop.simps
        split: sum.splits if_splits)
  from sourceConnsLoop_dom[OF loop] have "dom conns = set ?names" by simp
  then have "dom (srcConns s) = channels_spec (srcLive s)"
    unfolding s channels_spec_def by auto
  with s criu show ?thesis by auto
qed

lemma newMigrationSink_Inr:
  assumes "newMigrationSink env args = Inr c"
  shows "sinkLive c = argLive args
    \<and> dom (sinkConns c) = channels_spec (sinkLive c)
    \<and> (sinkLive c \<and> instType (argInstance args) = Container \<longrightarrow> lookPathCriu env)"
proof -
  let ?names = "if argLive args then [SecretNameControl, SecretNameFilesystem] @ [SecretNameState]
                else [SecretNameControl, SecretNameFilesystem]"
  from assms have criu: "\<not> (argLive args \<and> instType (argInstance args) = Container \<and> \<not> lookPathCriu env)"
    by (auto simp: newMigrationSink_def Let_def split: if_splits)
  with assms obtain conns where
    loop: "sinkConnsLoop env args ?names 0 Map.empty = Inr conns"
    and c: "sinkConns c = conns" "sinkLive c = argLive args"
    by (auto simp: newMigrationSink_def Let_def simp del: sinkConnsLoop.simps
        split: sum.splits if_splits)
  from sinkConnsLoop_dom[OF loop] have "dom conns = set ?names" by simp
  then have "dom (sinkConns c) = channels_spec (sinkLive c)"
    unfolding c channels_spec_def by auto
  with c criu show ?thesis by auto
qed


text \<open>
  Claim C5: a live migration of a container needs criu to be found: without it
  \<^verbatim>\<open>newMigrationSource\<close> fails with \<^verbatim>\<open>ErrNoLiveMigrationSource\<close> and
  \<^verbatim>\<open>newMigrationSink\<close> with \<^verbatim>\<open>ErrNoLiveMigrationTarget\<close>; and a session that is
  created has exactly the channels control and filesystem when it is not live, and
  exactly control, filesystem and state when it is live.
\<close>

theorem migration_criu_and_channels:
  "(stateful \<and> instIsRunning inst \<and> instType inst = Container \<and> \<not> lookPathCriu env \<longrightarrow>
      newMigrationSource env inst stateful instanceOnly allowInconsistent cm sp pt
        = Inl ErrNoLiveMigrationSource)
   \<and> (argLive args \<and> instType (argInstance args) = Container \<and> \<not> lookPathCriu env \<longrightarrow>
      newMigrationSink env args = Inl ErrNoLiveMigrationTarget)
   \<and> (newMigrationSource env inst stateful instanceOnly allowInconsistent cm sp pt = Inr s \<longrightarrow>
        srcLive s = (stateful \<and> instIsRunning inst)
        \<and> dom (srcConns s) = channels_spec (srcLive s)
        \<and> (srcLive s \<and> instType inst = Container \<longrightarrow> lookPathCriu env))
   \<and> (newMigrationSink env args = Inr c \<longrightarrow>
        sinkLive c = argLive args
        \<and> dom (sinkConns c) = channels_spec (sinkLive c)
        \<and> (sinkLive c \<and> instType (argInstance args) = Container \<longrightarrow> lookPathCriu env))"
proof (intro conjI impI)
  assume "stateful \<and> instIsRunning inst \<and> instType inst = Container \<and> \<not> lookPathCriu env"
  then show "newMigrationSource env inst stateful instanceOnly allowInconsistent cm sp pt
        = Inl ErrNoLiveMigrationSource"
    by (simp add: newMigrationSource_def Let_def)
next
  assume "argLive args \<and> instType (argInstance args) = Container \<and> \<not> lookPathCriu env"
  then show "newMigrationSink env args = Inl ErrNoLiveMigrationTarget"
    by (simp add: newMigrationSink_def Let_def)
next
  assume a: "newMigrationSource env inst stateful instanceOnly allowInconsistent cm sp pt = Inr s"
  from newMigrationSource_Inr[OF a]
  show "srcLive s = (stateful \<and> instIsRunning inst)"
    and "dom (srcConns s) = channels_spec (srcLive s)"
    by simp_all
  assume "srcLive s \<and> instType inst = Container"
  with newMigrationSource_Inr[OF a] show "lookPathCriu env" by simp
next
  assume a: "newMigrationSink env args = Inr c"
  from newMigrationSink_Inr[OF a]
  show "sinkLive c = argLive args" and "dom (sinkConns c) = channels_spec (sinkLive c)"
    by simp_all
  assume "sinkLive c \<and> instType (argInstance args) = Container"
  with newMigrationSink_Inr[OF a] show "lookPathCriu env" by simp
qed

theorem migration_criu_and_channels_witness:
  "newMigrationSource
      \<lparr>lookPathCriu = False, randomHexString = (\<lambda>n. Some ''5ec2e7''),
       setupWebsocketDialer = Some, urlParse = Some\<rparr>
      \<lparr>instType = Container, instIsRunning = True\<rparr> True False False [] ''default'' None
     = Inl ErrNoLiveMigrationSource
   \<and> newMigrationSink
      \<lparr>lookPathCriu = False, randomHexString = (\<lambda>n. Some ''5ec2e7''),
       setupWebsocketDialer = Some, urlParse = Some\<rparr>
      \<lparr>argInstance = \<lparr>instType = Container, instIsRunning = False\<rparr>, argInstanceOnly = False,
       argLive = True, argStoragePool = ''default'', argURL = [], argClusterMoveSourceName = [],
       argPush = True, argRefresh = False, argRefreshExcludeOlder = False,
       argSecrets = Map.empty, argDialer = None\<rparr>
     = Inl ErrNoLiveMigrationTarget
   \<and> (case newMigrationSource
      \<lparr>lookPathCriu = True, randomHexString = (\<lambda>n. Some ''5ec2e7''),
       setupWebsocketDialer = Some, urlParse = Some\<rparr>
      \<lparr>instType = Container, instIsRunning = True\<rparr> True False False [] ''default'' None
     of Inl e \<Rightarrow> False
      | Inr s \<Rightarrow> dom (srcConns s) = {SecretNameControl, SecretNameFilesystem, SecretNameState})
   \<and> (case newMigrationSink
      \<lparr>lookPathCriu = False, randomHexString = (\<lambda>n. Some ''5ec2e7''),
       setupWebsocketDialer = Some, urlParse = Some\<rparr>
      \<lparr>argInstance = \<lparr>instType = Container, instIsRunning = False\<rparr>, argInstanceOnly = False,
       argLive = False, argStoragePool = ''default'', argURL = [], argClusterMoveSourceName = [],
       argPush = True, argRefresh = False, argRefreshExcludeOlder = False,
       argSecrets = Map.empty, argDialer = None\<rparr>
     of Inl e \<Rightarrow> False
      | Inr c \<Rightarrow> dom (sinkConns c) = {SecretNameControl, SecretNameFilesystem})"
proof -
  let ?env0 = "\<lparr>lookPathCriu = False, randomHexString = (\<lambda>n. Some ''5ec2e7''),
       setupWebsocketDialer = Some, urlParse = Some\<rparr>"
  let ?env1 = "\<lparr>lookPathCriu = True, randomHexString = (\<lambda>n. Some ''5ec2e7''),
       setupWebsocketDialer = Some, urlParse = Some\<rparr>"
  let ?inst = "\<lparr>instType = Container, instIsRunning = True\<rparr>"
  let ?live = "\<lparr>argInstance = \<lparr>instType = Container, instIsRunning = False\<rparr>, argInstanceOnly = False,
       argLive = True, argStoragePool = ''default'', argURL = [], argClusterMoveSourceName = [],
       argPush = True, argRefresh = False, argRefreshExcludeOlder = False,
       argSecrets = Map.empty, argDialer = None\<rparr>"
  let ?cold = "\<lparr>argInstance = \<lparr>instType = Container, instIsRunning = False\<rparr>, argInstanceOnly = False,
       argLive = False, argStoragePool = ''default'', argURL = [], argClusterMoveSourceName = [],
       argPush = True, argRefresh = False, argRefreshExcludeOlder = False,
       argSecrets = Map.empty, argDialer = None\<rparr>"
  have "\<exists>s. newMigrationSource ?env1 ?inst True False False [] ''default'' None = Inr s"
    by (simp add: newMigrationSource_def Let_def)
  then obtain s where s: "newMigrationSource ?env1 ?inst True False False [] ''default'' None = Inr s" ..
  have "\<exists>c. newMigrationSink ?env0 ?cold = Inr c"
    by (simp add: newMigrationSink_def Let_def)
  then obtain c where c: "newMigrationSink ?env0 ?cold = Inr c" ..
  note fail = migration_criu_and_channels[where env = ?env0 and inst = ?inst and stateful = True
      and args = ?live and instanceOnly = False and allowInconsistent = False and cm = "[]"
      and sp = "''default''" and pt = None]
  note src = migration_criu_and_channels[where env = ?env1 and inst = ?inst and stateful = True
      and instanceOnly = False and allowInconsistent = False and cm = "[]"
      and sp = "''default''" and pt = None and s = s]
  note snk = migration_criu_and_channels[where env = ?env0 and args = ?cold and c = c]
  from fail have 1: "newMigrationSource ?env0 ?inst True False False [] ''default'' None
     = Inl ErrNoLiveMigrationSource" by simp
  from fail have 2: "newMigrationSink ?env0 ?live = Inl ErrNoLiveMigrationTarget" by simp
  from src s have 3: "dom (srcConns s) = {SecretNameControl, SecretNameFilesystem, SecretNameState}"
    by (simp add: channels_spec_def)
  from snk c have 4: "dom (sinkConns c) = {SecretNameControl, SecretNameFilesystem}"
    by (simp add: channels_spec_def)
  show ?thesis
    unfolding 1 2 s c using 3 4 by simp
qed

text \<open>
  Claim C6: on the source and on the sink, \<^verbatim>\<open>do\<close> first waits for the control
  websocket under a context whose timeout is 30 seconds; when that wait returns an error,
  \<^verbatim>\<open>do\<close> returns "Failed waiting for migration control connection on source"
  (respectively "on target") wrapping it, and the instance transfer
  (\<^verbatim>\<open>MigrateSend\<close>, \<^verbatim>\<open>MigrateReceive\<close>) is never started.
\<close>

theorem control_wait_aborts_before_transfer:
  "hd (snd (migrationSourceWs_do env s)) = WaitControl 30
   \<and> hd (snd (migrationSink_do env c)) = WaitControl 30
   \<and> (webSocket env (srcConns s SecretNameControl) 30 = Some err \<longrightarrow>
        migrationSourceWs_do env s = (Some (FailedWaitingControlSource err), [WaitControl 30]))
   \<and> (webSocket env (sinkConns c SecretNameControl) 30 = Some err \<longrightarrow>
        migrationSink_do env c = (Some (FailedWaitingControlTarget err), [WaitControl 30]))
   \<and> (MigrateSend \<in> set (snd (migrationSourceWs_do env s)) \<longrightarrow>
        webSocket env (srcConns s SecretNameControl) 30 = None)
   \<and> (MigrateReceive \<in> set (snd (migrationSink_do env c)) \<longrightarrow>
        webSocket env (sinkConns c SecretNameControl) 30 = None)"
proof -
  have source: "hd (snd (migrationSourceWs_do env s)) = WaitControl 30
      \<and> (webSocket env (srcConns s SecretNameControl) 30 = Some err \<longrightarrow>
           migrationSourceWs_do env s = (Some (FailedWaitingControlSource err), [WaitControl 30]))
      \<and> (MigrateSend \<in> set (snd (migrationSourceWs_do env s)) \<longrightarrow>
           webSocket env (srcConns s SecretNameControl) 30 = None)"
  proof (cases "webSocket env (srcConns s SecretNameControl) 30")
    case None
    then show ?thesis
      by (cases "migrateSend env") (simp_all add: migrationSourceWs_do_def)
  next
    case (Some e)
    then show ?thesis by (simp add: migrationSourceWs_do_def)
  qed
  have sink: "hd (snd (migrationSink_do env c)) = WaitControl 30
      \<and> (webSocket env (sinkConns c SecretNameControl) 30 = Some err \<longrightarrow>
           migrationSink_do env c = (Some (FailedWaitingControlTarget err), [WaitControl 30]))
      \<and> (MigrateReceive \<in> set (snd (migrationSink_do env c)) \<longrightarrow>
           webSocket env (sinkConns c SecretNameControl) 30 = None)"
  proof (cases "webSocket env (sinkConns c SecretNameControl) 30")
    case None
    then show ?thesis
      by (cases "migrateReceive env") (simp_all add: migrationSink_do_def)
  next
    case (Some e)
    then show ?thesis by (simp add: migrationSink_do_def)
  qed
  from source sink show ?thesis by simp
qed

theorem control_wait_aborts_before_transfer_witness:
  "migrationSourceWs_do
     \<lparr>webSocket = (\<lambda>conn timeout. Some ''context deadline exceeded''),
      migrateSend = None, migrateReceive = None\<rparr>
     \<lparr>srcInstance = \<lparr>instType = Container, instIsRunning = False\<rparr>,
      srcAllowInconsistent = False, srcStoragePool = [], srcClusterMoveSourceName = [],
      srcPushCertificate = [], srcPushOperationURL = [], srcPushSecrets = Map.empty,
      srcInstanceOnly = False, srcLive = False, srcConns = Map.empty\<rparr>
    = (Some (FailedWaitingControlSource ''context deadline exceeded''), [WaitControl 30])
   \<and> MigrateReceive \<in> set (snd (migrationSink_do
     \<lparr>webSocket = (\<lambda>conn timeout. None), migrateSend = None, migrateReceive = None\<rparr>
     \<lparr>sinkInstance = \<lparr>instType = Container, instIsRunning = False\<rparr>, sinkInstanceOnly = False,
      sinkLive = False, sinkStoragePool = [], sinkURL = [], sinkClusterMoveSourceName = [],
      sinkPush = False, sinkRefresh = False, sinkRefreshExcludeOlder = False,
      sinkConns = Map.empty\<rparr>))"
proof -
  let ?s = "\<lparr>srcInstance = \<lparr>instType = Container, instIsRunning = False\<rparr>,
      srcAllowInconsistent = False, srcStoragePool = [], srcClusterMoveSourceName = [],
      srcPushCertificate = [], srcPushOperationURL = [], srcPushSecrets = Map.empty,
      srcInstanceOnly = False, srcLive = False, srcConns = Map.empty\<rparr>"
  let ?env = "\<lparr>webSocket = (\<lambda>conn timeout. Some ''context deadline exceeded''),
      migrateSend = None, migrateReceive = None\<rparr>"
  from control_wait_aborts_before_transfer[where env = ?env and s = ?s
      and err = "''context deadline exceeded''"]
  have "migrationSourceWs_do ?env ?s
    = (Some (FailedWaitingControlSource ''context deadline exceeded''), [WaitControl 30])"
    by simp
  then show ?thesis by (simp add: migrationSink_do_def)
qed

section \<open>Properties of imageDelete\<close>

lemma GetImage_Inr:
  assumes "GetImage st fingerprint project = Inr i"
  shows "i \<in> set (dbImages st)" and "imgProject i = project"
    and "HasPrefix (imgFingerprint i) fingerprint"
proof -
  let ?P = "\<lambda>i. imgProject i = project \<and> HasPrefix (imgFingerprint i) fingerprint"
  from assms have "filter ?P (dbImages st) = [i]"
    by (auto simp: GetImage_def split: list.splits)
  then have "i \<in> set (filter ?P (dbImages st))" by simp
  then show "i \<in> set (dbImages st)" and "imgProject i = project"
    and "HasPrefix (imgFingerprint i) fingerprint" by auto
qed

lemma GetImage_ImageExists:
  "GetImage st fingerprint project = Inr i \<Longrightarrow> ImageExists st project (imgFingerprint i)"
  using GetImage_Inr[of st fingerprint project i]
  by (auto simp: ImageExists_def list_ex_iff)

lemma filter_other_ids:
  assumes "distinct (map imgID xs)" and "x \<in> set xs"
  shows "set (filter (\<lambda>i. imgID i \<noteq> imgID x) xs) = set xs - {x}"
proof -
  from assms(1) have "inj_on imgID (set xs)" by (simp add: distinct_map)
  with assms(2) show ?thesis by (auto dest: inj_onD)
qed

text \<open>
  Claim C8: when \<^verbatim>\<open>DELETE /1.0/images/{fingerprint}\<close> is handled for an image whose
  fingerprint another project has a record of too, and the request is not a cluster
  notification, the files, the pool volumes and the events are left as they were (no
  member is notified); when the operation succeeds the record of the requesting project
  is the one record removed, when it fails no record is removed; and it succeeds when no
  call fails.
\<close>

theorem imageDelete_referenced_keeps_blob:
  assumes get: "GetImage st (delFingerprint r) (delProject r) = Inr imgInfo"
    and normal: "\<not> delClusterNotification r"
    and referenced: "ImageIsReferencedByOtherProjects st (delProject r) (imgFingerprint imgInfo)"
    and run: "imageDelete deleteFails r st = (res, st')"
  shows "files st' = files st \<and> volumes st' = volumes st \<and> events st' = events st
    \<and> (res = DeleteOK \<longrightarrow>
          dbImages st' = filter (\<lambda>i. imgID i \<noteq> imgID imgInfo) (dbImages st)
          \<and> (distinct (map imgID (dbImages st)) \<longrightarrow> set (dbImages st') = set (dbImages st) - {imgInfo}))
    \<and> (res \<noteq> DeleteOK \<longrightarrow> dbImages st' = dbImages st)
    \<and> ((\<forall>c. \<not> deleteFails c) \<longrightarrow> res = DeleteOK)"
proof -
  have ex: "ImageExists st (delProject r) (imgFingerprint imgInfo)"
    using get by (rule GetImage_ImageExists)
  have mem: "imgInfo \<in> set (dbImages st)"
    using get by (rule GetImage_Inr)
  from run get normal referenced ex
  have cases: "(res = DeleteOK \<and> st' = DeleteImage st (imgID imgInfo)
        \<and> \<not> deleteFails CallDeleteImageReferenced)
      \<or> (res \<noteq> DeleteOK \<and> st' = st \<and> (\<exists>c. deleteFails c))"
    by (auto simp: imageDelete_def imageDelete_do_def Let_def split: if_splits)
  then show ?thesis
  proof
    assume ok: "res = DeleteOK \<and> st' = DeleteImage st (imgID imgInfo)
        \<and> \<not> deleteFails CallDeleteImageReferenced"
    then have st': "st' = DeleteImage st (imgID imgInfo)" by simp
    have frame: "files st' = files st" "volumes st' = volumes st" "events st' = events st"
      and db: "dbImages st' = filter (\<lambda>i. imgID i \<noteq> imgID imgInfo) (dbImages st)"
      unfolding st' by (simp_all add: DeleteImage_def)
    have "distinct (map imgID (dbImages st)) \<longrightarrow> set (dbImages st') = set (dbImages st) - {imgInfo}"
      unfolding db using filter_other_ids[OF _ mem] by blast
    with ok frame db show ?thesis by simp
  next
    assume "res \<noteq> DeleteOK \<and> st' = st \<and> (\<exists>c. deleteFails c)"
    then show ?thesis by blast
  qed
qed


theorem imageDelete_referenced_keeps_blob_witness:
  "(case imageDelete (\<lambda>c. False)
      \<lparr>delProject = ''dev'', delFingerprint = ''abc'', delClusterNotification = False\<rparr>
      (sample_daemon [sample_image 1 ''default'' ''abc123'' False, sample_image 2 ''dev'' ''abc123'' False])
    of (res, st') \<Rightarrow> res = DeleteOK
       \<and> dbImages st' = [sample_image 1 ''default'' ''abc123'' False]
       \<and> files st' = {''images/abc123''}
       \<and> volumes st' = [(''pool0'', ''abc123'')]
       \<and> events st' = [])"
proof -
  let ?r = "\<lparr>delProject = ''dev'', delFingerprint = ''abc'', delClusterNotification = False\<rparr>"
  let ?a = "sample_image 1 ''default'' ''abc123'' False"
  let ?b = "sample_image 2 ''dev'' ''abc123'' False"
  let ?st = "sample_daemon [?a, ?b]"
  obtain res st' where run: "imageDelete (\<lambda>c. False) ?r ?st = (res, st')"
    by (cases "imageDelete (\<lambda>c. False) ?r ?st")
  have get: "GetImage ?st (delFingerprint ?r) (delProject ?r) = Inr ?b"
    by (simp add: GetImage_def HasPrefix_def sample_daemon_def sample_image_def)
  have normal: "\<not> delClusterNotification ?r" by simp
  have referenced: "ImageIsReferencedByOtherProjects ?st (delProject ?r) (imgFingerprint ?b)"
    by (simp add: ImageIsReferencedByOtherProjects_def sample_daemon_def sample_image_def)
  from imageDelete_referenced_keeps_blob[OF get normal referenced run]
  have res: "res = DeleteOK"
    and frame: "files st' = files ?st" "volumes st' = volumes ?st" "events st' = events ?st"
    and db: "dbImages st' = filter (\<lambda>i. imgID i \<noteq> imgID ?b) (dbImages ?st)"
    by simp_all
  from db have "dbImages st' = [?a]"
    by (simp add: sample_daemon_def sample_image_def)
  with res frame show ?thesis
    unfolding run by (simp add: sample_daemon_def)
qed

section \<open>Properties of pruneExpiredImages\<close>

lemma expiryDuration_in_range:
  assumes "0 \<le> d" and "d \<le> 106751"
  shows "expiryDuration d = d * 86400000000000"
proof -
  have "(word_of_int d :: 64 word) * 3600000000000 * 24 = word_of_int (d * 86400000000000)"
    by simp
  moreover have "- (2 ^ 63) \<le> d * 86400000000000" "d * 86400000000000 < 2 ^ 63"
    using assms by auto
  ultimately show ?thesis
    unfolding expiryDuration_def
    by (simp only: sint_sbintrunc' signed_take_bit_int_eq_self_iff len_of_numeral_defs) simp
qed

lemma expiryDuration_wraps: "expiryDuration 106752 = - 9223371273709551616"
  by (simp add: expiryDuration_def)

text \<open>
  The test of one record, for an expiry that fits a \<^verbatim>\<open>Duration\<close>: the expiry of the
  project is positive and the timestamp plus that many days is not after the current
  time.
\<close>

lemma recordExpired_in_range:
  assumes "expiryDaysOf m (imgProject dbImage) \<le> 106751"
  shows "recordExpired m now dbImage \<longleftrightarrow>
     0 < expiryDaysOf m (imgProject dbImage)
     \<and> imageTimestamp dbImage + expiryDaysOf m (imgProject dbImage) * 86400000000000 \<le> now"
proof (cases "0 < expiryDaysOf m (imgProject dbImage)")
  case True
  then have "expiryDuration (expiryDaysOf m (imgProject dbImage))
      = expiryDaysOf m (imgProject dbImage) * 86400000000000"
    using assms by (intro expiryDuration_in_range) simp_all
  with True show ?thesis by (auto simp: recordExpired_def Let_def)
next
  case False
  then show ?thesis by (simp add: recordExpired_def Let_def)
qed

text \<open>A project value of 0 wins over a positive global value, and no record of it expires.\<close>

lemma project_zero_disables_expiry:
  "projectsExpiryDays 10 [(''dev'', [''images.remote_cache_expiry'' \<mapsto> ''0''])] Map.empty
     = Inr [''dev'' \<mapsto> 0]"
  by (simp add: mapGet_def ParseInt_def)

lemma nonpositive_expiry_never_expires:
  "expiryDaysOf m (imgProject dbImage) \<le> 0 \<Longrightarrow> \<not> recordExpired m now dbImage"
  by (simp add: recordExpired_def Let_def)

text \<open>The inner loop deletes no record but expired ones of its list.\<close>

lemma pruneRecords_deletes_expired_only:
  assumes "pruneRecords env m fingerprint fpImages n st = (res, n', st')"
    and "i \<in> set (dbImages st)" and "i \<notin> set (dbImages st')"
  shows "\<exists>d \<in> set fpImages. imgID d = imgID i \<and> recordExpired m (timeNow env) d"
  using assms
proof (induction fpImages arbitrary: n st)
  case Nil
  then show ?case by simp
next
  case (Cons a rest)
  show ?case
  proof (cases "recordExpired m (timeNow env) a \<and> \<not> pruneFails env (PruneDeleteImage (imgID a))")
    case False
    with Cons.prems have "pruneRecords env m fingerprint rest n st = (res, n', st')
        \<or> st' = st"
      by (auto split: if_splits)
    with Cons.IH[of n st] Cons.prems(2,3) show ?thesis by auto
  next
    case True
    let ?st1 = "sendEvents (DeleteImage st (imgID a))
                [LifecycleImageDeleted (imgProject a) fingerprint]"
    from True Cons.prems(1) have step: "pruneRecords env m fingerprint rest (n + 1) ?st1 = (res, n', st')"
      by simp
    show ?thesis
    proof (cases "imgID i = imgID a")
      case same: True
      with True show ?thesis by auto
    next
      case other: False
      with Cons.prems(2) have "i \<in> set (dbImages ?st1)"
        by (simp add: sendEvents_def DeleteImage_def)
      from Cons.IH[OF step this Cons.prems(3)] show ?thesis by auto
    qed
  qed
qed

text \<open>
  Claim C3 at a store where the fingerprint \<open>abc123\<close> has a cached record in project
  \<open>default\<close> and a record that is not cached in project \<open>dev\<close>, with a global expiry of
  10 days and the cached record last used 11 days ago: the pass deletes the cached record,
  counts one deleted record of one, and removes the pool volume and the file
  \<open>images/abc123\<close>, although the record of \<open>dev\<close> is still there.
\<close>

theorem pruneExpiredImages_removes_blob_of_uncached_holder:
  "(case pruneExpiredImages
      \<lparr>globalImageRemoteCacheExpiryDays = 10, timeNow = 950400000000000,
       pruneFails = (\<lambda>c. False), ctxDone = (\<lambda>k. False)\<rparr>
      (sample_daemon [sample_image 1 ''default'' ''abc123'' True, sample_image 2 ''dev'' ''abc123'' False])
    of (res, st') \<Rightarrow> res = PruneOK
       \<and> dbImages st' = [sample_image 2 ''dev'' ''abc123'' False]
       \<and> files st' = {}
       \<and> volumes st' = [])"
  by (simp add: pruneExpiredImages_def sample_daemon_def sample_image_def mapGet_def
      GetCachedImages_def allImages_def recordExpired_def expiryDaysOf_def imageTimestamp_def
      expiryDuration_def pruneBlob_def GetPoolNamesWithImage_def DeleteImage_def sendEvents_def
      poolDeleteImage_def imagePath_def)

section \<open>Properties of imagePatch\<close>

lemma GetImage_Inr_iff:
  "GetImage st fingerprint project = Inr i \<longleftrightarrow>
     filter (\<lambda>i. imgProject i = project \<and> HasPrefix (imgFingerprint i) fingerprint) (dbImages st) = [i]"
  by (auto simp: GetImage_def split: list.splits)

lemma GetImage_sendEvents [simp]: "GetImage (sendEvents st es) = GetImage st"
  by (intro ext) (simp add: GetImage_def sendEvents_def)

lemma GetImage_UpdateImage:
  assumes "GetImage st fingerprint project = Inr info"
  shows "GetImage (UpdateImage st (imgID info) fname sz public autoUpdate architecture createdAt
            expiresAt properties) fingerprint project
         = Inr (info\<lparr>imgFilename := fname, imgSize := sz, imgPublic := public,
                 imgAutoUpdate := autoUpdate, imgArchitecture := architecture,
                 imgCreatedAt := createdAt, imgExpiresAt := expiresAt,
                 imgProperties := properties\<rparr>)"
proof -
  let ?P = "\<lambda>i. imgProject i = project \<and> HasPrefix (imgFingerprint i) fingerprint"
  let ?u = "\<lambda>i. if imgID i = imgID info
          then i\<lparr>imgFilename := fname, imgSize := sz, imgPublic := public,
                 imgAutoUpdate := autoUpdate, imgArchitecture := architecture,
                 imgCreatedAt := createdAt, imgExpiresAt := expiresAt,
                 imgProperties := properties\<rparr>
          else i"
  have same: "?P \<circ> ?u = ?P" by (intro ext) simp
  from assms have one: "filter ?P (dbImages st) = [info]"
    by (simp add: GetImage_Inr_iff)
  have "filter ?P (map ?u (dbImages st)) = map ?u (filter (?P \<circ> ?u) (dbImages st))"
    by (rule filter_map)
  also have "\<dots> = [?u info]" unfolding same one by simp
  finally have "filter ?P (dbImages (UpdateImage st (imgID info) fname sz public autoUpdate
      architecture createdAt expiresAt properties)) = [?u info]"
    by (simp add: UpdateImage_def)
  then show ?thesis by (simp add: GetImage_Inr_iff)
qed

lemma GetBool_Some: "GetBool m key = Some b \<Longrightarrow> m key \<noteq> None"
  by (auto simp: GetBool_def split: option.splits any.splits)

lemma mergeProperties_Some:
  assumes "mergeProperties reqProperties infoProperties = Some merged"
  shows "reqProperties = Some properties \<Longrightarrow> properties k = None \<Longrightarrow> merged k = infoProperties k"
    and "reqProperties = Some properties \<Longrightarrow> properties k = Some v \<Longrightarrow> merged k = Some v"
    and "reqProperties = None \<Longrightarrow> merged = infoProperties"
  using assms by (auto simp: mergeProperties_def split: if_splits)

text \<open>
  What a run of \<^verbatim>\<open>imagePatch\<close> that passed the ETag check comes to: either it stops
  with an error and the store is as before, or it stores the record with the new flags and
  properties and the old other fields.
\<close>

lemma imagePatch_cases:
  assumes get: "GetImage st (patchFingerprint r) (patchProject r) = Inr info"
    and etag: "EtagCheck env r (imgPublic info, imgAutoUpdate info, imgProperties info)"
    and run: "imagePatch env r st = (res, st')"
  shows "(res \<noteq> PatchOK \<and> st' = st)
    \<or> (\<exists>reqRaw req properties.
          res = PatchOK
          \<and> decodeMap env (patchBody r) = Some reqRaw
          \<and> decodeImagePut env (patchBody r) = Some req
          \<and> (if reqRaw ''properties'' \<noteq> None
              then mergeProperties (putProperties req) (imgProperties info)
              else Some (imgProperties info)) = Some properties
          \<and> GetImage st' (patchFingerprint r) (patchProject r)
              = Inr (info\<lparr>imgFilename := imgFilename info, imgSize := imgSize info,
                   imgPublic := (case GetBool reqRaw ''public'' of
                                   Some b \<Rightarrow> b | None \<Rightarrow> imgPublic info),
                   imgAutoUpdate := (case GetBool reqRaw ''auto_update'' of
                                       Some b \<Rightarrow> b | None \<Rightarrow> imgAutoUpdate info),
                   imgArchitecture := imgArchitecture info,
                   imgCreatedAt := imgCreatedAt info, imgExpiresAt := imgExpiresAt info,
                   imgProperties := properties\<rparr>))"
proof (cases "res = PatchOK")
  case False
  with run get etag have "st' = st"
    by (auto simp: imagePatch_def Let_def split: if_splits option.splits)
  with False show ?thesis by simp
next
  case True
  with run get etag obtain reqRaw req properties where
    d1: "decodeMap env (patchBody r) = Some reqRaw"
    and d2: "decodeImagePut env (patchBody r) = Some req"
    and p: "(if reqRaw ''properties'' \<noteq> None
              then mergeProperties (putProperties req) (imgProperties info)
              else Some (imgProperties info)) = Some properties"
    and st': "st' = sendEvents
                (UpdateImage st (imgID info) (imgFilename info) (imgSize info)
                   (case GetBool reqRaw ''public'' of Some b \<Rightarrow> b | None \<Rightarrow> imgPublic info)
                   (case GetBool reqRaw ''auto_update'' of Some b \<Rightarrow> b | None \<Rightarrow> imgAutoUpdate info)
                   (imgArchitecture info) (imgCreatedAt info) (imgExpiresAt info) properties)
                [LifecycleImageUpdated (patchProject r) (imgFingerprint info)]"
    by (simp add: imagePatch_def Let_def split: if_splits option.splits)
  show ?thesis
    using True d1 d2 p unfolding st' GetImage_sendEvents
    by (intro disjI2 exI[of _ reqRaw] exI[of _ req] exI[of _ properties])
       (simp add: GetImage_UpdateImage[OF get])
qed


text \<open>
  Claim C10: for every \<^verbatim>\<open>PATCH /1.0/images/{fingerprint}\<close> that passes the ETag check,
  the stored auto-update and public flags differ afterwards only if the key
  \<open>auto_update\<close>, respectively \<open>public\<close>, is present in the request body; every key
  that the request's properties map does not have keeps its stored value, and when the
  request succeeds with a \<open>properties\<close> key the keys of its map have the request's
  values; filename, size, architecture, created-at and expires-at are as before.
\<close>

theorem imagePatch_changes_only_what_is_supplied:
  assumes get: "GetImage st (patchFingerprint r) (patchProject r) = Inr info"
    and etag: "EtagCheck env r (imgPublic info, imgAutoUpdate info, imgProperties info)"
    and run: "imagePatch env r st = (res, st')"
  shows "\<exists>info'. GetImage st' (patchFingerprint r) (patchProject r) = Inr info'
    \<and> (imgAutoUpdate info' \<noteq> imgAutoUpdate info \<longrightarrow>
          (\<exists>reqRaw. decodeMap env (patchBody r) = Some reqRaw \<and> reqRaw ''auto_update'' \<noteq> None))
    \<and> (imgPublic info' \<noteq> imgPublic info \<longrightarrow>
          (\<exists>reqRaw. decodeMap env (patchBody r) = Some reqRaw \<and> reqRaw ''public'' \<noteq> None))
    \<and> (\<forall>req properties k.
          decodeImagePut env (patchBody r) = Some req \<and> putProperties req = Some properties
          \<and> properties k = None \<longrightarrow> imgProperties info' k = imgProperties info k)
    \<and> (\<forall>reqRaw req properties k v.
          res = PatchOK \<and> decodeMap env (patchBody r) = Some reqRaw \<and> reqRaw ''properties'' \<noteq> None
          \<and> decodeImagePut env (patchBody r) = Some req \<and> putProperties req = Some properties
          \<and> properties k = Some v \<longrightarrow> imgProperties info' k = Some v)
    \<and> imgFilename info' = imgFilename info \<and> imgSize info' = imgSize info
    \<and> imgArchitecture info' = imgArchitecture info
    \<and> imgCreatedAt info' = imgCreatedAt info \<and> imgExpiresAt info' = imgExpiresAt info"
  using imagePatch_cases[OF get etag run]
proof
  assume "res \<noteq> PatchOK \<and> st' = st"
  with get show ?thesis by simp
next
  assume "\<exists>reqRaw req properties.
          res = PatchOK
          \<and> decodeMap env (patchBody r) = Some reqRaw
          \<and> decodeImagePut env (patchBody r) = Some req
          \<and> (if reqRaw ''properties'' \<noteq> None
              then mergeProperties (putProperties req) (imgProperties info)
              else Some (imgProperties info)) = Some properties
          \<and> GetImage st' (patchFingerprint r) (patchProject r)
              = Inr (info\<lparr>imgFilename := imgFilename info, imgSize := imgSize info,
                   imgPublic := (case GetBool reqRaw ''public'' of
                                   Some b \<Rightarrow> b | None \<Rightarrow> imgPublic info),
                   imgAutoUpdate := (case GetBool reqRaw ''auto_update'' of
                                       Some b \<Rightarrow> b | None \<Rightarrow> imgAutoUpdate info),
                   imgArchitecture := imgArchitecture info,
                   imgCreatedAt := imgCreatedAt info, imgExpiresAt := imgExpiresAt info,
                   imgProperties := properties\<rparr>)"
  then obtain reqRaw req properties where
    d1: "decodeMap env (patchBody r) = Some reqRaw"
    and d2: "decodeImagePut env (patchBody r) = Some req"
    and p: "(if reqRaw ''properties'' \<noteq> None
              then mergeProperties (putProperties req) (imgProperties info)
              else Some (imgProperties info)) = Some properties"
    and g: "GetImage st' (patchFingerprint r) (patchProject r)
              = Inr (info\<lparr>imgFilename := imgFilename info, imgSize := imgSize info,
                   imgPublic := (case GetBool reqRaw ''public'' of
                                   Some b \<Rightarrow> b | None \<Rightarrow> imgPublic info),
                   imgAutoUpdate := (case GetBool reqRaw ''auto_update'' of
                                       Some b \<Rightarrow> b | None \<Rightarrow> imgAutoUpdate info),
                   imgArchitecture := imgArchitecture info,
                   imgCreatedAt := imgCreatedAt info, imgExpiresAt := imgExpiresAt info,
                   imgProperties := properties\<rparr>)"
    by blast
  have au: "(case GetBool reqRaw ''auto_update'' of Some b \<Rightarrow> b | None \<Rightarrow> imgAutoUpdate info)
      \<noteq> imgAutoUpdate info \<longrightarrow> reqRaw ''auto_update'' \<noteq> None"
    by (auto split: option.splits dest: GetBool_Some)
  have pu: "(case GetBool reqRaw ''public'' of Some b \<Rightarrow> b | None \<Rightarrow> imgPublic info)
      \<noteq> imgPublic info \<longrightarrow> reqRaw ''public'' \<noteq> None"
    by (auto split: option.splits dest: GetBool_Some)
  have keep: "putProperties req = Some ps \<Longrightarrow> ps k = None \<Longrightarrow> properties k = imgProperties info k"
    for ps k
    using p mergeProperties_Some(1)[of "putProperties req" "imgProperties info" properties ps k]
    by (auto split: if_splits)
  have take: "reqRaw ''properties'' \<noteq> None \<Longrightarrow> putProperties req = Some ps \<Longrightarrow> ps k = Some v
      \<Longrightarrow> properties k = Some v" for ps k v
    using p mergeProperties_Some(2)[of "putProperties req" "imgProperties info" properties ps k v]
    by (auto split: if_splits)
  show ?thesis
    unfolding g d1 d2 using au pu keep take by auto
qed


theorem imagePatch_changes_only_what_is_supplied_witness:
  "(case imagePatch
      \<lparr>patchFails = (\<lambda>c. False), EtagCheck = (\<lambda>r etag. True),
       decodeMap = (\<lambda>body. Some [''properties'' \<mapsto> AnyOther]),
       decodeImagePut = (\<lambda>body. Some \<lparr>putAutoUpdate = False,
          putProperties = Some [''release'' \<mapsto> ''3.20''], putPublic = False,
          putExpiresAt = 0, putProfiles = None\<rparr>)\<rparr>
      \<lparr>patchProject = ''default'', patchFingerprint = ''abc123'', patchBody = ''body''\<rparr>
      (sample_daemon [sample_image 1 ''default'' ''abc123'' False])
    of (res, st') \<Rightarrow>
      (case GetImage st' ''abc123'' ''default'' of
         Inl e \<Rightarrow> False
       | Inr info' \<Rightarrow> imgProperties info' ''os'' = Some ''Alpine''
           \<and> imgAutoUpdate info' = False \<and> imgPublic info' = False
           \<and> imgFilename info' = ''image.tar.xz'' \<and> imgSize info' = 17))"
proof -
  let ?req = "\<lparr>putAutoUpdate = False,
          putProperties = Some [''release'' \<mapsto> ''3.20''], putPublic = False,
          putExpiresAt = 0, putProfiles = None\<rparr>"
  let ?env = "\<lparr>patchFails = (\<lambda>c. False), EtagCheck = (\<lambda>r etag. True),
       decodeMap = (\<lambda>body. Some [''properties'' \<mapsto> AnyOther]),
       decodeImagePut = (\<lambda>body. Some ?req)\<rparr>"
  let ?r = "\<lparr>patchProject = ''default'', patchFingerprint = ''abc123'', patchBody = ''body''\<rparr>"
  let ?info = "sample_image 1 ''default'' ''abc123'' False"
  let ?st = "sample_daemon [?info]"
  obtain res st' where run: "imagePatch ?env ?r ?st = (res, st')"
    by (cases "imagePatch ?env ?r ?st")
  have get: "GetImage ?st (patchFingerprint ?r) (patchProject ?r) = Inr ?info"
    by (simp add: GetImage_def HasPrefix_def sample_daemon_def sample_image_def)
  have etag: "EtagCheck ?env ?r (imgPublic ?info, imgAutoUpdate ?info, imgProperties ?info)"
    by simp
  from imagePatch_changes_only_what_is_supplied[OF get etag run]
  obtain info' where g: "GetImage st' ''abc123'' ''default'' = Inr info'"
    and au: "imgAutoUpdate info' \<noteq> imgAutoUpdate ?info \<longrightarrow>
          (\<exists>reqRaw. decodeMap ?env (patchBody ?r) = Some reqRaw \<and> reqRaw ''auto_update'' \<noteq> None)"
    and pu: "imgPublic info' \<noteq> imgPublic ?info \<longrightarrow>
          (\<exists>reqRaw. decodeMap ?env (patchBody ?r) = Some reqRaw \<and> reqRaw ''public'' \<noteq> None)"
    and keep: "\<forall>req properties k.
          decodeImagePut ?env (patchBody ?r) = Some req \<and> putProperties req = Some properties
          \<and> properties k = None \<longrightarrow> imgProperties info' k = imgProperties ?info k"
    and rest: "imgFilename info' = imgFilename ?info" "imgSize info' = imgSize ?info"
    by auto
  from au have 1: "imgAutoUpdate info' = False" by (simp add: sample_image_def)
  from pu have 2: "imgPublic info' = False" by (simp add: sample_image_def)
  from keep have "imgProperties info' ''os'' = imgProperties ?info ''os''"
    by simp
  then have 3: "imgProperties info' ''os'' = Some ''Alpine''" by (simp add: sample_image_def)
  from rest have 4: "imgFilename info' = ''image.tar.xz''" "imgSize info' = 17"
    by (simp_all add: sample_image_def)
  show ?thesis unfolding run using g 1 2 3 4 by simp
qed

section \<open>Properties of image ingestion\<close>

lemma uploadMultipart_frame:
  assumes "uploadMultipart env r info st = (res, st1)"
  shows "dbImages st1 = dbImages st \<and> dbImagesNodes st1 = dbImagesNodes st \<and> localNode st1 = localNode st"
  using assms
  by (auto simp: uploadMultipart_def Let_def split: if_splits list.splits option.splits)

lemma uploadTarball_frame:
  assumes "uploadTarball env r info st = (res, st1)"
  shows "dbImages st1 = dbImages st \<and> dbImagesNodes st1 = dbImagesNodes st \<and> localNode st1 = localNode st"
  using assms
  by (auto simp: uploadTarball_def Let_def split: if_splits list.splits option.splits)

lemma uploadMultipart_Inr:
  assumes "uploadMultipart env r info st = (Inr (info1, imageMeta), st1)"
  shows "\<exists>metadataPart rootfsPart rest.
      upParts r = metadataPart # rootfsPart # rest
      \<and> partFormName metadataPart = ''metadata''
      \<and> (partFormName rootfsPart = ''rootfs'' \<and> imgType info1 = ''container''
          \<or> partFormName rootfsPart = ''rootfs.img'' \<and> imgType info1 = ''virtual-machine'')
      \<and> imgFingerprint info1 = sha256hex env (partData metadataPart @ partData rootfsPart)"
  using assms
  by (auto simp: uploadMultipart_def Let_def split: if_splits list.splits option.splits)




lemma uploadTarball_Inr:
  assumes "uploadTarball env r info st = (Inr (info1, imageMeta), st1)"
  shows "imgFingerprint info1 = sha256hex env (upData r)"
  using assms
  by (auto simp: uploadTarball_def Let_def split: if_splits option.splits)

text \<open>
  The three ways a run of \<^verbatim>\<open>getImgPostInfo\<close> can go: the body is refused, the
  properties or profiles are refused, or the image reaches the end of the function with
  the fingerprint and the type the body gave it.
\<close>

lemma uploadInfo_Inr:
  assumes "uploadInfo r metadata imageMeta info = Inr info2"
  shows "imgFingerprint info2 = imgFingerprint info" and "imgType info2 = imgType info"
  using assms by (auto simp: uploadInfo_def Let_def split: sum.splits)







subsection \<open>An ingestion that finds the fingerprint in the project\<close>

text \<open>
  \<^verbatim>\<open>getImgPostInfo\<close> is its first part followed by the existence check.
\<close>

lemma getImgPostInfo_stage:
  "getImgPostInfo env r project metadata st =
     (case uploadStage env r project metadata st of
        (Inl e, st1) \<Rightarrow> (UploadError e, st1)
      | (Inr info, st1) \<Rightarrow> uploadRegister env r project metadata info st1)"
  by (simp add: getImgPostInfo_def uploadStage_def Let_def split: prod.splits sum.splits)

lemma uploadBody_frame:
  assumes "(if upContentType r = ''multipart/form-data''
            then uploadMultipart env r info st else uploadTarball env r info st) = (a, st1)"
  shows "dbImages st1 = dbImages st" and "dbImagesNodes st1 = dbImagesNodes st"
    and "localNode st1 = localNode st"
  using assms uploadMultipart_frame[of env r info st a st1] uploadTarball_frame[of env r info st a st1]
  by (auto split: if_splits)

lemma uploadBody_fingerprint:
  assumes "(if upContentType r = ''multipart/form-data''
            then uploadMultipart env r info st else uploadTarball env r info st)
           = (Inr (info1, imageMeta), st1)"
  shows "imgFingerprint info1 = uploadFingerprint env r"
proof (cases "upContentType r = ''multipart/form-data''")
  case True
  with assms have "uploadMultipart env r info st = (Inr (info1, imageMeta), st1)" by simp
  from uploadMultipart_Inr[OF this] True show ?thesis
    by (auto simp: uploadFingerprint_def)
next
  case False
  with assms have "uploadTarball env r info st = (Inr (info1, imageMeta), st1)" by simp
  from uploadTarball_Inr[OF this] False show ?thesis
    by (simp add: uploadFingerprint_def)
qed

text \<open>The first part writes files only: records, holders and the member are as before.\<close>

lemma uploadStage_frame:
  assumes stage: "uploadStage env r project metadata st = (a, st1)"
  shows "dbImages st1 = dbImages st" and "dbImagesNodes st1 = dbImagesNodes st"
    and "localNode st1 = localNode st"
proof -
  let ?info = "emptyImage\<lparr>imgPublic := IsTrue env (upPublic r)\<rparr>"
  let ?body = "(if upContentType r = ''multipart/form-data''
            then uploadMultipart env r ?info st else uploadTarball env r ?info st)"
  obtain b st2 where body: "?body = (b, st2)" by (cases ?body)
  from stage have "(case ?body of
        (Inl e, st1) \<Rightarrow> (Inl e, st1)
      | (Inr (info1, imageMeta), st1) \<Rightarrow>
          (case uploadInfo r metadata imageMeta info1 of
             Inl e \<Rightarrow> (Inl e, st1)
           | Inr info2 \<Rightarrow>
               (case (case upProfiles r of
                        None \<Rightarrow> Inr []
                      | Some names \<Rightarrow> uploadProfiles env project names) of
                  Inl e \<Rightarrow> (Inl e, st1)
                | Inr profileIds \<Rightarrow> (Inr info2, st1)))) = (a, st1)"
    unfolding uploadStage_def Let_def .
  then have "st1 = st2"
    unfolding body by (auto split: sum.splits prod.splits)
  with uploadBody_frame[OF body]
  show "dbImages st1 = dbImages st" and "dbImagesNodes st1 = dbImagesNodes st"
    and "localNode st1 = localNode st"
    by simp_all
qed

text \<open>The fingerprint the existence check receives is the digest of the body.\<close>

lemma uploadStage_fingerprint:
  assumes stage: "uploadStage env r project metadata st = (Inr info, st1)"
  shows "imgFingerprint info = uploadFingerprint env r"
proof -
  let ?info = "emptyImage\<lparr>imgPublic := IsTrue env (upPublic r)\<rparr>"
  let ?body = "(if upContentType r = ''multipart/form-data''
            then uploadMultipart env r ?info st else uploadTarball env r ?info st)"
  obtain b st2 where body: "?body = (b, st2)" by (cases ?body)
  from stage have run: "(case ?body of
        (Inl e, st1) \<Rightarrow> (Inl e, st1)
      | (Inr (info1, imageMeta), st1) \<Rightarrow>
          (case uploadInfo r metadata imageMeta info1 of
             Inl e \<Rightarrow> (Inl e, st1)
           | Inr info2 \<Rightarrow>
               (case (case upProfiles r of
                        None \<Rightarrow> Inr []
                      | Some names \<Rightarrow> uploadProfiles env project names) of
                  Inl e \<Rightarrow> (Inl e, st1)
                | Inr profileIds \<Rightarrow> (Inr info2, st1)))) = (Inr info, st1)"
    unfolding uploadStage_def Let_def .
  then obtain info1 imageMeta where b: "b = Inr (info1, imageMeta)"
    and filled: "uploadInfo r metadata imageMeta info1 = Inr info"
    unfolding body by (auto split: sum.splits prod.splits)
  from body b have "?body = (Inr (info1, imageMeta), st2)" by simp
  from uploadBody_fingerprint[OF this] uploadInfo_Inr(1)[OF filled]
  show ?thesis by simp
qed

lemma ImageExists_cong:
  "dbImages st1 = dbImages st \<Longrightarrow> ImageExists st1 project fp = ImageExists st project fp"
  by (simp add: ImageExists_def)

text \<open>The existence check, when the project has a record of the fingerprint.\<close>

lemma uploadRegister_exists:
  assumes "ImageExists st1 project (imgFingerprint info)"
  shows "uploadRegister env r project metadata info st1 =
     (if upFails env UpImageExists then (UploadError (UploadFailed UpImageExists), st1)
      else if \<not> upClusterNotification r then (UploadAlreadyExists info, st1)
      else if upFails env UpAddImageToLocalNode
        then (UploadError (UploadFailed UpAddImageToLocalNode), st1)
      else (UploadOK info, AddImageToLocalNode st1 project (imgFingerprint info)))"
  using assms by (simp add: uploadRegister_def)

lemma AddImageToLocalNode_holders:
  assumes "dbImages st1 = dbImages st" "dbImagesNodes st1 = dbImagesNodes st"
    "localNode st1 = localNode st"
  shows "dbImages (AddImageToLocalNode st1 project fp) = dbImages st"
    and "dbImagesNodes (AddImageToLocalNode st1 project fp)
       = dbImagesNodes st
         @ map (\<lambda>i. (imgID i, localNode st))
             (filter (\<lambda>i. imgProject i = project \<and> imgFingerprint i = fp) (dbImages st))"
  using assms by (simp_all add: AddImageToLocalNode_def)

lemma ImageExists_records:
  "ImageExists st project fp
     \<longleftrightarrow> filter (\<lambda>i. imgProject i = project \<and> imgFingerprint i = fp) (dbImages st) \<noteq> []"
  by (simp add: ImageExists_def list_ex_iff filter_empty_conv)

lemma ImageExists_GetImage:
  assumes "ImageExists st project fingerprint"
  shows "GetImage st fingerprint project \<noteq> Inl GetNotFound"
proof -
  let ?P = "\<lambda>i. imgProject i = project \<and> HasPrefix (imgFingerprint i) fingerprint"
  from assms obtain i where "i \<in> set (dbImages st)" "imgProject i = project"
    "imgFingerprint i = fingerprint"
    by (auto simp: ImageExists_def list_ex_iff)
  then have "\<exists>x \<in> set (dbImages st). ?P x" by (auto simp: HasPrefix_def)
  then have "filter ?P (dbImages st) \<noteq> []" by (simp add: filter_empty_conv)
  then show ?thesis
    by (auto simp: GetImage_def split: list.splits)
qed

text \<open>The lookup of a publish, when the project has a record of the fingerprint.\<close>

lemma imgPostInstanceInfo_register_exists:
  assumes "ImageExists st (pubProject r) (imgFingerprint info)"
  shows "imgPostInstanceInfo_register publishFails now r info st =
     (if publishFails PubGetImage then (PublishFailed PubGetImage, st)
      else if GetImage st (imgFingerprint info) (pubProject r) = Inl GetAmbiguous
        then (PublishGetImage GetAmbiguous, st)
      else (PublishAlreadyExists info, st))"
  using ImageExists_GetImage[OF assms]
  by (auto simp: imgPostInstanceInfo_register_def split: sum.splits get_error.splits)

text \<open>
  Claim C4, as stated: every ingestion that finds a record of the fingerprint in the
  project and is marked as a cluster notification registers this server as a holder
  instead of failing. It does not on the publish path: \<^verbatim>\<open>imgPostInstanceInfo\<close> never
  looks at the marker. A publish marked as a cluster notification whose fingerprint
  \<open>abc123\<close> project \<open>default\<close> already has a record of gets "The image already
  exists", and the store is as before, which is not the store with this server registered.
\<close>

theorem publish_notification_already_exists_counterexample:
  "imgPostInstanceInfo_register (\<lambda>c. False) 0
      \<lparr>pubProject = ''default'', pubClusterNotification = True, pubSplit = False,
       pubInstanceProject = ''default'', pubArchitecture = ''x86_64'', pubProperties = Map.empty\<rparr>
      (sample_image 0 ''default'' ''abc123'' False)
      (sample_daemon [sample_image 1 ''default'' ''abc123'' False])
    = (PublishAlreadyExists (sample_image 0 ''default'' ''abc123'' False),
       sample_daemon [sample_image 1 ''default'' ''abc123'' False])
   \<and> dbImagesNodes (AddImageToLocalNode (sample_daemon [sample_image 1 ''default'' ''abc123'' False])
          ''default'' ''abc123'')
      \<noteq> dbImagesNodes (sample_daemon [sample_image 1 ''default'' ''abc123'' False])"
  by (simp add: imgPostInstanceInfo_register_def GetImage_def HasPrefix_def AddImageToLocalNode_def
      sample_daemon_def sample_image_def)

text \<open>
  Claim C4, amended. An upload (\<^verbatim>\<open>getImgPostInfo\<close>) whose body, expected fingerprint,
  metadata, properties or profiles are refused, or one of whose calls fails, before the
  existence check returns that error, and the records and the holders are as before. An
  upload that reaches the check with a fingerprint the project has a record of: returns
  the error of \<^verbatim>\<open>ImageExists\<close> when that call fails; else, when it is not a cluster
  notification, returns the already-exists error with the image, and the records and the
  holders are as before; else it calls \<^verbatim>\<open>AddImageToLocalNode\<close>, returns its error when
  it fails, and otherwise succeeds: the records are as before, and this server is added
  as a holder of the project's record of the fingerprint, which there is. A publish
  (\<^verbatim>\<open>imgPostInstanceInfo\<close>) whose fingerprint the project has a record of returns the
  error of the lookup when the lookup fails or finds the fingerprint ambiguous, and else
  the already-exists error; the store is as before, whether or not the request is marked
  as a cluster notification.
\<close>

theorem ingestion_of_existing_fingerprint:
  "(uploadStage env r project metadata st = (Inl e, st1) \<longrightarrow>
      getImgPostInfo env r project metadata st = (UploadError e, st1)
      \<and> dbImages st1 = dbImages st \<and> dbImagesNodes st1 = dbImagesNodes st)
   \<and> (uploadStage env r project metadata st = (Inr info, st1)
       \<and> ImageExists st project (uploadFingerprint env r) \<longrightarrow>
      imgFingerprint info = uploadFingerprint env r
      \<and> dbImages st1 = dbImages st \<and> dbImagesNodes st1 = dbImagesNodes st
      \<and> getImgPostInfo env r project metadata st =
          (if upFails env UpImageExists then (UploadError (UploadFailed UpImageExists), st1)
           else if \<not> upClusterNotification r then (UploadAlreadyExists info, st1)
           else if upFails env UpAddImageToLocalNode
             then (UploadError (UploadFailed UpAddImageToLocalNode), st1)
           else (UploadOK info, AddImageToLocalNode st1 project (uploadFingerprint env r)))
      \<and> dbImages (AddImageToLocalNode st1 project (uploadFingerprint env r)) = dbImages st
      \<and> dbImagesNodes (AddImageToLocalNode st1 project (uploadFingerprint env r))
          = dbImagesNodes st
            @ map (\<lambda>i. (imgID i, localNode st))
                (filter (\<lambda>i. imgProject i = project
                            \<and> imgFingerprint i = uploadFingerprint env r) (dbImages st))
      \<and> filter (\<lambda>i. imgProject i = project
                    \<and> imgFingerprint i = uploadFingerprint env r) (dbImages st) \<noteq> [])
   \<and> (ImageExists st (pubProject pr) (imgFingerprint pinfo) \<longrightarrow>
        imgPostInstanceInfo_register publishFails now pr pinfo st =
          (if publishFails PubGetImage then (PublishFailed PubGetImage, st)
           else if GetImage st (imgFingerprint pinfo) (pubProject pr) = Inl GetAmbiguous
             then (PublishGetImage GetAmbiguous, st)
           else (PublishAlreadyExists pinfo, st)))"
proof (intro conjI)
  show "uploadStage env r project metadata st = (Inl e, st1) \<longrightarrow>
      getImgPostInfo env r project metadata st = (UploadError e, st1)
      \<and> dbImages st1 = dbImages st \<and> dbImagesNodes st1 = dbImagesNodes st"
  proof
    assume stage: "uploadStage env r project metadata st = (Inl e, st1)"
    then have "getImgPostInfo env r project metadata st = (UploadError e, st1)"
      by (simp add: getImgPostInfo_stage)
    with uploadStage_frame(1,2)[OF stage]
    show "getImgPostInfo env r project metadata st = (UploadError e, st1)
      \<and> dbImages st1 = dbImages st \<and> dbImagesNodes st1 = dbImagesNodes st"
      by simp
  qed
next
  let ?fp = "uploadFingerprint env r"
  let ?records = "filter (\<lambda>i. imgProject i = project \<and> imgFingerprint i = ?fp) (dbImages st)"
  show "uploadStage env r project metadata st = (Inr info, st1)
       \<and> ImageExists st project ?fp \<longrightarrow>
      imgFingerprint info = ?fp
      \<and> dbImages st1 = dbImages st \<and> dbImagesNodes st1 = dbImagesNodes st
      \<and> getImgPostInfo env r project metadata st =
          (if upFails env UpImageExists then (UploadError (UploadFailed UpImageExists), st1)
           else if \<not> upClusterNotification r then (UploadAlreadyExists info, st1)
           else if upFails env UpAddImageToLocalNode
             then (UploadError (UploadFailed UpAddImageToLocalNode), st1)
           else (UploadOK info, AddImageToLocalNode st1 project ?fp))
      \<and> dbImages (AddImageToLocalNode st1 project ?fp) = dbImages st
      \<and> dbImagesNodes (AddImageToLocalNode st1 project ?fp)
          = dbImagesNodes st @ map (\<lambda>i. (imgID i, localNode st)) ?records
      \<and> ?records \<noteq> []"
  proof
    assume a: "uploadStage env r project metadata st = (Inr info, st1)
       \<and> ImageExists st project ?fp"
    then have stage: "uploadStage env r project metadata st = (Inr info, st1)"
      and ex: "ImageExists st project ?fp" by simp_all
    note frame = uploadStage_frame[OF stage]
    have fp: "imgFingerprint info = ?fp" by (rule uploadStage_fingerprint[OF stage])
    have "ImageExists st1 project ?fp"
      using ex ImageExists_cong[OF frame(1), of project ?fp] by simp
    then have ex1: "ImageExists st1 project (imgFingerprint info)" by (simp only: fp)
    have "getImgPostInfo env r project metadata st
        = uploadRegister env r project metadata info st1"
      using stage by (simp add: getImgPostInfo_stage)
    also note uploadRegister_exists[OF ex1]
    finally have run: "getImgPostInfo env r project metadata st =
          (if upFails env UpImageExists then (UploadError (UploadFailed UpImageExists), st1)
           else if \<not> upClusterNotification r then (UploadAlreadyExists info, st1)
           else if upFails env UpAddImageToLocalNode
             then (UploadError (UploadFailed UpAddImageToLocalNode), st1)
           else (UploadOK info, AddImageToLocalNode st1 project ?fp))"
      by (simp only: fp)
    note holders = AddImageToLocalNode_holders[OF frame, of project ?fp]
    note records = ImageExists_records[THEN iffD1, OF ex]
    show "imgFingerprint info = ?fp
      \<and> dbImages st1 = dbImages st \<and> dbImagesNodes st1 = dbImagesNodes st
      \<and> getImgPostInfo env r project metadata st =
          (if upFails env UpImageExists then (UploadError (UploadFailed UpImageExists), st1)
           else if \<not> upClusterNotification r then (UploadAlreadyExists info, st1)
           else if upFails env UpAddImageToLocalNode
             then (UploadError (UploadFailed UpAddImageToLocalNode), st1)
           else (UploadOK info, AddImageToLocalNode st1 project ?fp))
      \<and> dbImages (AddImageToLocalNode st1 project ?fp) = dbImages st
      \<and> dbImagesNodes (AddImageToLocalNode st1 project ?fp)
          = dbImagesNodes st @ map (\<lambda>i. (imgID i, localNode st)) ?records
      \<and> ?records \<noteq> []"
      by (rule conjI[OF fp conjI[OF frame(1) conjI[OF frame(2) conjI[OF run
          conjI[OF holders(1) conjI[OF holders(2) records]]]]]])
  qed
next
  show "ImageExists st (pubProject pr) (imgFingerprint pinfo) \<longrightarrow>
        imgPostInstanceInfo_register publishFails now pr pinfo st =
          (if publishFails PubGetImage then (PublishFailed PubGetImage, st)
           else if GetImage st (imgFingerprint pinfo) (pubProject pr) = Inl GetAmbiguous
             then (PublishGetImage GetAmbiguous, st)
           else (PublishAlreadyExists pinfo, st))"
    by (rule impI) (rule imgPostInstanceInfo_register_exists)
qed

theorem ingestion_of_existing_fingerprint_witness:
  "(case getImgPostInfo sample_upload_env (sample_upload ''rootfs'' False) ''default'' no_token
          (sample_daemon [sample_image 1 ''default'' ''abc123'' False]) of
      (UploadAlreadyExists info, st') \<Rightarrow>
        imgFingerprint info = ''abc123''
        \<and> dbImages st' = [sample_image 1 ''default'' ''abc123'' False]
        \<and> dbImagesNodes st' = [(1, ''node1'')]
    | _ \<Rightarrow> False)
   \<and> (case getImgPostInfo sample_upload_env (sample_upload ''rootfs'' True) ''default'' no_token
          (sample_daemon [sample_image 1 ''default'' ''abc123'' False]) of
      (UploadOK info, st') \<Rightarrow>
        imgFingerprint info = ''abc123''
        \<and> dbImages st' = [sample_image 1 ''default'' ''abc123'' False]
        \<and> dbImagesNodes st' = [(1, ''node1''), (1, ''node1'')]
    | _ \<Rightarrow> False)
   \<and> getImgPostInfo sample_upload_env ((sample_upload ''rootfs'' False)\<lparr>upFingerprint := ''ffffff''\<rparr>)
        ''default'' no_token (sample_daemon [sample_image 1 ''default'' ''abc123'' False])
      = (UploadError UploadFingerprintMismatch,
         sample_daemon [sample_image 1 ''default'' ''abc123'' False])
   \<and> imgPostInstanceInfo_register (\<lambda>c. False) 0
        \<lparr>pubProject = ''default'', pubClusterNotification = False, pubSplit = False,
         pubInstanceProject = ''default'', pubArchitecture = ''x86_64'', pubProperties = Map.empty\<rparr>
        (sample_image 0 ''default'' ''abc123'' False)
        (sample_daemon [sample_image 1 ''default'' ''abc123'' False])
      = (PublishAlreadyExists (sample_image 0 ''default'' ''abc123'' False),
         sample_daemon [sample_image 1 ''default'' ''abc123'' False])"
proof -
  let ?env = sample_upload_env
  let ?st = "sample_daemon [sample_image 1 ''default'' ''abc123'' False]"
  let ?n = "sample_upload ''rootfs'' False"
  let ?c = "sample_upload ''rootfs'' True"
  let ?m = "(sample_upload ''rootfs'' False)\<lparr>upFingerprint := ''ffffff''\<rparr>"
  let ?pr = "\<lparr>pubProject = ''default'', pubClusterNotification = False, pubSplit = False,
         pubInstanceProject = ''default'', pubArchitecture = ''x86_64'', pubProperties = Map.empty\<rparr>"
  let ?pi = "sample_image 0 ''default'' ''abc123'' False"
  have fp: "uploadFingerprint ?env ?n = ''abc123''" "uploadFingerprint ?env ?c = ''abc123''"
    by (simp_all add: uploadFingerprint_def sample_upload_env_def sample_upload_def)
  have ex: "ImageExists ?st ''default'' ''abc123''"
    by (simp add: ImageExists_def sample_daemon_def sample_image_def)
  have st: "dbImages ?st = [sample_image 1 ''default'' ''abc123'' False]"
    "dbImagesNodes ?st = [(1, ''node1'')]" "localNode ?st = ''node1''"
    by (simp_all add: sample_daemon_def sample_image_def)
  have quiet: "\<not> upFails ?env UpImageExists" "\<not> upFails ?env UpAddImageToLocalNode"
    by (simp_all add: sample_upload_env_def)
  have flags: "\<not> upClusterNotification ?n" "upClusterNotification ?c"
    by (simp_all add: sample_upload_def)
  have "\<exists>info st1. uploadStage ?env ?n ''default'' no_token ?st = (Inr info, st1)"
    by (simp add: uploadStage_def uploadMultipart_def uploadInfo_def uploadProperties_def
        sample_upload_env_def sample_upload_def no_token_def Let_def)
  then obtain info1 st1 where
    stage1: "uploadStage ?env ?n ''default'' no_token ?st = (Inr info1, st1)" by blast
  have "\<exists>info st1. uploadStage ?env ?c ''default'' no_token ?st = (Inr info, st1)"
    by (simp add: uploadStage_def uploadMultipart_def uploadInfo_def uploadProperties_def
        sample_upload_env_def sample_upload_def no_token_def Let_def)
  then obtain info2 st2 where
    stage2: "uploadStage ?env ?c ''default'' no_token ?st = (Inr info2, st2)" by blast
  have stage3: "uploadStage ?env ?m ''default'' no_token ?st = (Inl UploadFingerprintMismatch, ?st)"
    by (simp add: uploadStage_def uploadMultipart_def sample_upload_env_def sample_upload_def Let_def)
  have pex: "ImageExists ?st (pubProject ?pr) (imgFingerprint ?pi)"
    using ex by (simp add: sample_image_def)
  note t1 = ingestion_of_existing_fingerprint[where env = ?env and r = ?n and project = "''default''"
      and metadata = no_token and st = ?st and info = info1 and ?st1.0 = st1
      and pr = ?pr and pinfo = ?pi and publishFails = "\<lambda>c. False" and now = 0]
  note t2 = ingestion_of_existing_fingerprint[where env = ?env and r = ?c and project = "''default''"
      and metadata = no_token and st = ?st and info = info2 and ?st1.0 = st2
      and pr = ?pr and pinfo = ?pi and publishFails = "\<lambda>c. False" and now = 0]
  note t3 = ingestion_of_existing_fingerprint[where env = ?env and r = ?m and project = "''default''"
      and metadata = no_token and st = ?st and e = UploadFingerprintMismatch and ?st1.0 = ?st
      and pr = ?pr and pinfo = ?pi and publishFails = "\<lambda>c. False" and now = 0]
  from t1 stage1 ex have 1: "imgFingerprint info1 = ''abc123''"
      "dbImages st1 = dbImages ?st" "dbImagesNodes st1 = dbImagesNodes ?st"
      "getImgPostInfo ?env ?n ''default'' no_token ?st = (UploadAlreadyExists info1, st1)"
    unfolding fp using quiet flags by simp_all
  from t2 stage2 ex have 2: "imgFingerprint info2 = ''abc123''"
      "getImgPostInfo ?env ?c ''default'' no_token ?st
         = (UploadOK info2, AddImageToLocalNode st2 ''default'' ''abc123'')"
      "dbImages (AddImageToLocalNode st2 ''default'' ''abc123'') = dbImages ?st"
      "dbImagesNodes (AddImageToLocalNode st2 ''default'' ''abc123'')
         = dbImagesNodes ?st @ map (\<lambda>i. (imgID i, localNode ?st))
             (filter (\<lambda>i. imgProject i = ''default'' \<and> imgFingerprint i = ''abc123'') (dbImages ?st))"
    unfolding fp using quiet flags by simp_all
  from t3 stage3 have 3: "getImgPostInfo ?env ?m ''default'' no_token ?st
      = (UploadError UploadFingerprintMismatch, ?st)"
    by simp
  have clear: "GetImage ?st (imgFingerprint ?pi) (pubProject ?pr) \<noteq> Inl GetAmbiguous"
    by (simp add: GetImage_def HasPrefix_def sample_daemon_def sample_image_def)
  from t1 pex clear
  have 4: "imgPostInstanceInfo_register (\<lambda>c. False) 0 ?pr ?pi ?st = (PublishAlreadyExists ?pi, ?st)"
    by simp
  have nodes: "dbImagesNodes ?st @ map (\<lambda>i. (imgID i, localNode ?st))
             (filter (\<lambda>i. imgProject i = ''default'' \<and> imgFingerprint i = ''abc123'') (dbImages ?st))
      = [(1, ''node1''), (1, ''node1'')]"
    by (simp add: sample_daemon_def sample_image_def)
  show ?thesis
    unfolding 1(4) 2(2) 3 4 using 1(1,2,3) 2(1,3,4) st nodes by simp
qed

section \<open>Properties of imageValidSecret\<close>









end
